theory Spec2Isabelle
  imports Complex_Main
begin

section \<open>pydsge: the system compiler and the parameter store (core.py)\<close>

text \<open>
  A shallow embedding of \<^verbatim>\<open>get_sys\<close>, \<^verbatim>\<open>get_par\<close> and \<^verbatim>\<open>set_par\<close> of
  \<^verbatim>\<open>pydsge/core.py\<close>. The model object \<^verbatim>\<open>self\<close> is split in two: the record
  \<open>dsge\<close> holds the attributes these functions only read (the parsed model), the record
  \<open>dsge_state\<close> holds the attributes they write, together with everything printed. A
  Python exception is the outcome \<open>Raise\<close>, returned with the state reached when it was
  raised. Numbers are reals; the linear algebra of numpy, scipy and grgrlib (SVD, inverse,
  the Klein solver, the tolerance test \<^verbatim>\<open>fast0\<close>) is not part of the repository and is
  taken as a parameter, the record \<open>numerics\<close>.
\<close>

subsection \<open>Vectors, matrices and the numpy operations used\<close>

type_synonym vec = "real list"
type_synonym mat = "real list list"  \<comment> \<open>a list of rows\<close>

datatype error =
    NotImplementedError string
  | ValueError string
  | KeyError string
  | SyntaxError string
  | IndexError string
  | AttributeError string
  | TypeError string
  | LinAlgError string

datatype 'a outcome = Return 'a | Raise error

definition nrows :: "mat \<Rightarrow> nat" where
  "nrows M = length M"

definition ncols :: "mat \<Rightarrow> nat" where
  "ncols M = (case M of [] \<Rightarrow> 0 | r # _ \<Rightarrow> length r)"

definition shape :: "mat \<Rightarrow> nat \<times> nat" where
  "shape M = (nrows M, ncols M)"

definition zeros :: "nat \<Rightarrow> nat \<Rightarrow> mat" where
  "zeros r c = replicate r (replicate c 0)"

definition eye :: "nat \<Rightarrow> mat" where
  "eye n = map (\<lambda>i. map (\<lambda>j. if i = j then 1 else 0) [0..<n]) [0..<n]"

definition dot :: "vec \<Rightarrow> vec \<Rightarrow> real" where
  "dot u v = sum_list (map2 (*) u v)"

definition matvec :: "mat \<Rightarrow> vec \<Rightarrow> vec" where
  "matvec M v = map (\<lambda>r. dot r v) M"

definition col :: "mat \<Rightarrow> nat \<Rightarrow> vec" where
  "col M j = map (\<lambda>r. r ! j) M"

definition transp :: "mat \<Rightarrow> mat" where
  "transp M = map (col M) [0..<ncols M]"

definition matmul :: "mat \<Rightarrow> mat \<Rightarrow> mat" where
  "matmul M K = map (\<lambda>r. map (\<lambda>j. dot r (col K j)) [0..<ncols K]) M"

definition outer :: "vec \<Rightarrow> vec \<Rightarrow> mat" where
  "outer u v = map (\<lambda>x. map (\<lambda>y. x * y) v) u"

definition mat_add :: "mat \<Rightarrow> mat \<Rightarrow> mat" where
  "mat_add M K = map2 (map2 (+)) M K"

definition mat_neg :: "mat \<Rightarrow> mat" where
  "mat_neg M = map (map uminus) M"

definition scale :: "vec \<Rightarrow> real \<Rightarrow> vec" where
  "scale v x = map (\<lambda>y. y * x) v"

definition hstack :: "mat \<Rightarrow> mat \<Rightarrow> mat" where
  "hstack M K = map2 (@) M K"

definition block :: "mat \<Rightarrow> mat \<Rightarrow> mat \<Rightarrow> mat \<Rightarrow> mat" where
  \<comment> \<open>\<^verbatim>\<open>np.block([[M, K], [L, R]])\<close>\<close>
  "block M K L R = hstack M K @ hstack L R"

definition delete :: "'a list \<Rightarrow> nat \<Rightarrow> 'a list" where
  \<comment> \<open>\<^verbatim>\<open>np.delete(xs, i)\<close>, for an index in range\<close>
  "delete xs i = take i xs @ drop (Suc i) xs"

definition delete_col :: "mat \<Rightarrow> nat \<Rightarrow> mat" where
  \<comment> \<open>\<^verbatim>\<open>np.delete(M, i, 1)\<close>\<close>
  "delete_col M i = map (\<lambda>r. delete r i) M"

definition msk :: "'a list \<Rightarrow> bool list \<Rightarrow> 'a list" where
  \<comment> \<open>boolean-mask indexing \<^verbatim>\<open>xs[m]\<close>: the entries (rows) at which the mask is true\<close>
  "msk xs m = map fst (filter snd (zip xs m))"

definition msk_cols :: "mat \<Rightarrow> bool list \<Rightarrow> mat" where
  \<comment> \<open>\<^verbatim>\<open>M[:, m]\<close>\<close>
  "msk_cols M m = map (\<lambda>r. msk r m) M"

definition inv_msk :: "bool list \<Rightarrow> bool list" where
  \<comment> \<open>\<^verbatim>\<open>~m\<close>\<close>
  "inv_msk m = map Not m"

definition msk_and :: "bool list \<Rightarrow> bool list \<Rightarrow> bool list" where
  "msk_and m k = map2 (\<and>) m k"

definition msk_or :: "bool list \<Rightarrow> bool list \<Rightarrow> bool list" where
  "msk_or m k = map2 (\<or>) m k"

definition count_true :: "bool list \<Rightarrow> nat" where
  \<comment> \<open>\<^verbatim>\<open>sum(m)\<close> of a boolean array\<close>
  "count_true m = length (filter (\<lambda>b. b) m)"

definition tail_n :: "nat \<Rightarrow> 'a list \<Rightarrow> 'a list" where
  \<comment> \<open>the slice \<^verbatim>\<open>xs[-n:]\<close>; Python reads \<^verbatim>\<open>xs[-0:]\<close> as the whole list\<close>
  "tail_n n xs = (if n = 0 then xs else drop (length xs - n) xs)"

definition set_tail_n :: "nat \<Rightarrow> 'a list \<Rightarrow> 'a list \<Rightarrow> 'a list" where
  \<comment> \<open>the slice assignment \<^verbatim>\<open>xs[-n:] = ys\<close> with \<open>ys\<close> of the slice's length\<close>
  "set_tail_n n xs ys = (if n = 0 then ys else take (length xs - n) xs @ ys)"

definition set_rows :: "mat \<Rightarrow> bool list \<Rightarrow> mat \<Rightarrow> mat" where
  \<comment> \<open>\<^verbatim>\<open>M[m] = K[m]\<close>: the rows of \<open>M\<close> at which the mask is true are replaced by those of \<open>K\<close>\<close>
  "set_rows M m K = map (\<lambda>(b, r, k). if b then k else r) (zip m (zip M K))"

fun index_of :: "'a list \<Rightarrow> 'a \<Rightarrow> nat option" where
  \<comment> \<open>\<^verbatim>\<open>xs.index(x)\<close>: the first position of \<open>x\<close>; \<open>None\<close> where Python raises ValueError\<close>
  "index_of [] x = None"
| "index_of (y # ys) x = (if y = x then Some 0 else map_option Suc (index_of ys x))"

definition take_idx :: "'a list \<Rightarrow> nat list \<Rightarrow> 'a list option" where
  \<comment> \<open>integer-array indexing \<^verbatim>\<open>xs[idx]\<close>; \<open>None\<close> where an index is out of range (IndexError)\<close>
  "take_idx xs idx = (if list_all (\<lambda>i. i < length xs) idx then Some (map (\<lambda>i. xs ! i) idx) else None)"

fun scatter :: "'a list \<Rightarrow> nat list \<Rightarrow> 'a list \<Rightarrow> 'a list" where
  "scatter xs [] vs = xs"
| "scatter xs (i # idx) [] = xs"
| "scatter xs (i # idx) (v # vs) = scatter (xs[i := v]) idx vs"

definition put_idx :: "'a list \<Rightarrow> nat list \<Rightarrow> 'a list \<Rightarrow> error + 'a list" where
  \<comment> \<open>the assignment \<^verbatim>\<open>xs[idx] = vs\<close> on a copy of \<open>xs\<close>: entries are written in the order of
     \<open>idx\<close>; a single value is broadcast\<close>
  "put_idx xs idx vs =
     (if \<not> list_all (\<lambda>i. i < length xs) idx then Inl (IndexError ''index out of bounds'')
      else if length vs = length idx then Inr (scatter xs idx vs)
      else if length vs = 1 then Inr (scatter xs idx (replicate (length idx) (hd vs)))
      else Inl (ValueError ''shape mismatch''))"

subsection \<open>Printed numbers\<close>

fun digits :: "nat \<Rightarrow> string" where
  "digits n = (if n < 10 then [char_of (48 + n)] else digits (n div 10) @ [char_of (48 + n mod 10)])"

definition str_int :: "int \<Rightarrow> string" where
  "str_int i = (if i < 0 then CHR ''-'' # digits (nat (- i)) else digits (nat i))"

definition ljust15 :: "string \<Rightarrow> string" where
  \<comment> \<open>\<^verbatim>\<open>s.ljust(15, ' ')\<close>\<close>
  "ljust15 s = s @ replicate (15 - length s) CHR '' ''"

subsection \<open>The model object\<close>

text \<open>
  The parsed model: what \<^verbatim>\<open>get_sys\<close>, \<^verbatim>\<open>get_par\<close> and \<^verbatim>\<open>set_par\<close> read from \<^verbatim>\<open>self\<close>
  and never assign. Variables and parameters are sympy symbols in the source; they are
  represented by their names (\<^verbatim>\<open>p.name\<close> and \<^verbatim>\<open>str(p)\<close> agree on a symbol). The parsed
  parameter object \<^verbatim>\<open>ppar\<close> is a vector. The methods \<^verbatim>\<open>pcompile\<close>, \<^verbatim>\<open>compile\<close>, \<^verbatim>\<open>AA\<close>,
  \<^verbatim>\<open>BB\<close>, \<^verbatim>\<open>CC\<close>, \<^verbatim>\<open>bb\<close>, \<^verbatim>\<open>PSI\<close>, \<^verbatim>\<open>ZZ\<close>, \<^verbatim>\<open>DD\<close>, \<^verbatim>\<open>QQ\<close> and \<^verbatim>\<open>p0\<close> are generated by the
  parser and are fields here. A prior entry keeps the three components \<^verbatim>\<open>get_par\<close> reads:
  the distribution name \<^verbatim>\<open>prior[pp][3]\<close> and the last two values.
\<close>

record prior_entry =
  p_dist :: string
  p_m2 :: real  \<comment> \<open>\<^verbatim>\<open>prior[pp][-2]\<close>\<close>
  p_m1 :: real  \<comment> \<open>\<^verbatim>\<open>prior[pp][-1]\<close>\<close>

record dsge =
  variables :: "string list"
  parameters :: "string list"
  const_var :: "string option"  \<comment> \<open>\<open>None\<close>: no constraint variable declared (falsy)\<close>
  parafunc :: "string list \<times> (vec \<Rightarrow> vec)"
  par_fix :: vec
  prior_arg :: "nat list"
  prior_names :: "string list"
  prior :: "(string \<times> prior_entry) list"
  p0 :: vec
  pcompile :: "vec \<Rightarrow> error + vec"
  compile :: "vec \<Rightarrow> error + vec"
  AA :: "vec \<Rightarrow> mat"
  BB :: "vec \<Rightarrow> mat"
  CC :: "vec \<Rightarrow> mat"
  bb :: "vec \<Rightarrow> vec"
  PSI :: "vec \<Rightarrow> mat"
  ZZ :: "vec \<Rightarrow> mat"
  DD :: "vec \<Rightarrow> vec"
  QQ :: "vec \<Rightarrow> mat"

type_synonym sys_tuple = "mat \<times> mat \<times> mat \<times> vec \<times> vec \<times> real"

record filter_obj =
  f_name :: string
  eps_cov :: mat
  f_Q :: mat

text \<open>
  What the three functions assign on \<^verbatim>\<open>self\<close>. A field is \<open>None\<close> while the attribute does
  not exist (\<^verbatim>\<open>hasattr\<close> is false), or, for the entries of \<^verbatim>\<open>fdict\<close>, while the key is
  missing or holds \<^verbatim>\<open>None\<close>. \<open>stdout\<close> lists the printed lines. \<open>'pc\<close> is the type of what the
  OBC preprocessing stores in \<^verbatim>\<open>precalc_mat\<close>.
\<close>

record 'pc dsge_state =
  lks :: "(int \<times> int) option"
  fdict_reduce_sys :: "bool option"
  fdict_ignore_tests :: "bool option"
  fdict_mode_x :: "vec option"
  fdict_mcmc_mode_x :: "vec option"
  fdict_init_value :: "real option list option"
  ndim :: "nat option"
  self_par :: "vec option"
  self_ppar :: "vec option"
  self_out_msk :: "bool list option"
  self_P :: "mat option"
  self_vv :: "string list option"
  self_vx :: "string list option"
  self_dim_x :: "nat option"
  self_dim_v :: "nat option"
  self_hx :: "(mat \<times> vec) option"
  self_obs_arg :: "nat list option"
  self_SIG :: "mat option"
  self_sys :: "sys_tuple option"
  precalc_mat :: "'pc option"
  self_filter :: "filter_obj option"
  stdout :: "string list"

text \<open>
  The numerical routines the source imports. \<open>near0\<close> is the entrywise test of grgrlib's
  \<^verbatim>\<open>fast0\<close> (an absolute value below its tolerance); \<open>re_bk\<close> is grgrlib's Klein solver,
  \<open>svd\<close> and \<open>inv\<close> are \<^verbatim>\<open>numpy.linalg.svd\<close> and \<^verbatim>\<open>numpy.linalg.inv\<close>; each can raise.
  \<open>str_det\<close> is the printed determinant. \<open>explosive\<close> counts the eigenvalues above one in
  the block of \<^verbatim>\<open>precalc_mat\<close> that the stability test reads.
\<close>

record 'pc numerics =
  near0 :: "real \<Rightarrow> bool"
  re_bk :: "mat \<Rightarrow> mat \<Rightarrow> nat \<Rightarrow> error + mat"
  svd :: "mat \<Rightarrow> error + (mat \<times> vec \<times> mat)"
  inv :: "mat \<Rightarrow> error + mat"
  str_det :: "mat \<Rightarrow> string"
  preprocess :: "sys_tuple \<Rightarrow> int \<Rightarrow> int \<Rightarrow> error + 'pc"
  explosive :: "'pc \<Rightarrow> nat"

definition fast0 :: "'pc numerics \<Rightarrow> vec \<Rightarrow> bool list" where
  \<comment> \<open>\<^verbatim>\<open>fast0(v)\<close>: entrywise\<close>
  "fast0 nu v = map (near0 nu) v"

definition fast0_cols :: "'pc numerics \<Rightarrow> mat \<Rightarrow> bool list" where
  \<comment> \<open>\<^verbatim>\<open>fast0(M, 0)\<close>: for each column, whether all its entries pass\<close>
  "fast0_cols nu M = map (\<lambda>j. list_all (near0 nu) (col M j)) [0..<ncols M]"

definition fast0_all :: "'pc numerics \<Rightarrow> vec \<Rightarrow> bool" where
  \<comment> \<open>\<^verbatim>\<open>fast0(v, 2)\<close>: whether all entries pass\<close>
  "fast0_all nu v = list_all (near0 nu) v"

definition run_preprocess ::
  "'pc numerics \<Rightarrow> int \<Rightarrow> int \<Rightarrow> 'pc dsge_state \<Rightarrow> unit outcome \<times> 'pc dsge_state" where
  \<comment> \<open>Modelled from the spec: \<^verbatim>\<open>preprocess\<close> of \<^verbatim>\<open>pydsge/engine.py\<close>, which is not among the
     source files. The spec: the external OBC preprocessing collaborator depends only on
     \<open>(l_max, k_max)\<close> and the compiled system. It stores its result in \<^verbatim>\<open>precalc_mat\<close>.\<close>
  "run_preprocess nu l k s =
     (case self_sys s of
        None \<Rightarrow> (Raise (AttributeError ''sys''), s)
      | Some sy \<Rightarrow>
          (case preprocess nu sy l k of
             Inl e \<Rightarrow> (Raise e, s)
           | Inr pc \<Rightarrow> (Return (), s\<lparr>precalc_mat := Some pc\<rparr>)))"

subsection \<open>get\_sys\<close>

record sys_args =
  a_par :: "vec option"
  a_reduce_sys :: "bool option"
  a_l_max :: "int option"
  a_k_max :: "int option"
  a_linear :: bool
  a_tol :: real
  a_ignore_tests :: "bool option"
  a_verbose :: nat  \<comment> \<open>\<^verbatim>\<open>False\<close> is 0, \<^verbatim>\<open>True\<close> is 1\<close>

definition default_args :: sys_args where
  "default_args = \<lparr>a_par = None, a_reduce_sys = None, a_l_max = None, a_k_max = None,
     a_linear = False, a_tol = 1 / 10 ^ 8, a_ignore_tests = Some False, a_verbose = 0\<rparr>"

definition truthy :: "bool option \<Rightarrow> bool" where
  "truthy b = (b = Some True)"

text \<open>Lines 40 to 68: the settings, stored in \<^verbatim>\<open>lks\<close> and \<^verbatim>\<open>fdict\<close>.\<close>

definition settings ::
  "sys_args \<Rightarrow> 'pc dsge_state \<Rightarrow> bool option \<times> bool option \<times> int \<times> int \<times> 'pc dsge_state" where
  "settings a s =
     (let reduce_sys = (case a_reduce_sys a of Some b \<Rightarrow> Some b | None \<Rightarrow> fdict_reduce_sys s);
          ignore_tests = (case a_ignore_tests a of Some b \<Rightarrow> Some b | None \<Rightarrow> fdict_ignore_tests s);
          (l_max, msgs) =
            (case a_l_max a of
               Some l \<Rightarrow>
                 if l < 2
                 then (3, [ljust15 ''[get_sys:]'' @ '' `l_max` must be at least 2 (is '' @ str_int l
                             @ ''). Correcting...''])
                 else (l + 1, [])
             | None \<Rightarrow>
                 (case lks s of
                    Some (l, k) \<Rightarrow> (l, [])
                  | None \<Rightarrow> (if a_linear a then 1 else 3, [])));
          k_max =
            (case a_k_max a of
               Some k \<Rightarrow> k
             | None \<Rightarrow>
                 (case lks s of
                    Some (l, k) \<Rightarrow> k
                  | None \<Rightarrow> if a_linear a then 0 else 17))
      in (reduce_sys, ignore_tests, l_max, k_max,
          s\<lparr>stdout := stdout s @ msgs, lks := Some (l_max, k_max),
            fdict_reduce_sys := reduce_sys, fdict_ignore_tests := ignore_tests\<rparr>))"

text \<open>Lines 71 to 74: \<^verbatim>\<open>pcompile\<close>, and \<^verbatim>\<open>compile\<close> when it raises AttributeError.\<close>

definition parse_par :: "dsge \<Rightarrow> vec \<Rightarrow> error + vec" where
  "parse_par m par =
     (case pcompile m par of
        Inl (AttributeError _) \<Rightarrow> compile m par
      | r \<Rightarrow> r)"

text \<open>
  Lines 82 to 125: the extended system \<open>(N, P)\<close> and the elimination of the constraint
  variable. The structural matrices have one row per equation other than the constraint
  and one column per variable; \<^verbatim>\<open>bb\<close> has a coefficient for each variable's future and
  current value.
\<close>

record built =
  b_c1 :: vec
  b_c_P :: vec
  b_b2 :: vec
  b_N1 :: mat
  b_P1 :: mat
  b_M1 :: mat
  b_vv_x3 :: "string list"
  b_dim_x :: nat

definition build :: "dsge \<Rightarrow> 'pc numerics \<Rightarrow> string \<Rightarrow> vec \<Rightarrow> error + built" where
  "build m nu cv ppar =
     (let vv_v = variables m;
          dim_v = length vv_v;
          AAm = AA m ppar;
          BBm = BB m ppar;
          CCm = CC m ppar;
          bbv = bb m ppar;
          in_x = msk_or (inv_msk (fast0_cols nu AAm)) (inv_msk (fast0 nu (take dim_v bbv)));
          vv_x2 = msk vv_v in_x;
          A1 = msk_cols AAm in_x;
          b1 = msk (take dim_v bbv) in_x @ drop dim_v bbv;
          dim_x = length vv_x2;
          N = block (zeros (nrows A1) (ncols A1)) CCm (eye dim_x) (zeros dim_x dim_v);
          P = block (mat_neg A1) (mat_neg BBm) (zeros dim_x dim_x) (msk (eye dim_v) in_x)
      in case index_of vv_x2 cv of
           None \<Rightarrow> Inl (ValueError (cv @ '' is not in list''))
         | Some c_arg \<Rightarrow>
             (let c1 = col N c_arg;
                  c_P = col P c_arg;
                  b2 = delete b1 c_arg;
                  N1 = delete_col N c_arg;
                  P1 = delete_col P c_arg;
                  vv_x3 = delete vv_x2 c_arg
              in Inr \<lparr>b_c1 = c1, b_c_P = c_P, b_b2 = b2, b_N1 = N1, b_P1 = P1,
                       b_M1 = mat_add N1 (outer c1 b2), b_vv_x3 = vv_x3,
                       b_dim_x = length vv_x3\<rparr>))"

text \<open>Lines 132 to 141: the desingularization of \<open>P1\<close>.\<close>

record desing =
  d_Ut :: mat
  d_s0 :: "bool list"
  d_P2 :: mat
  d_N2 :: mat
  d_c2 :: vec

definition desingularize :: "'pc numerics \<Rightarrow> real \<Rightarrow> built \<Rightarrow> error + desing" where
  "desingularize nu tol b =
     (case svd nu (b_P1 b) of
        Inl e \<Rightarrow> Inl e
      | Inr (U, s, V) \<Rightarrow>
          (let s0 = map (\<lambda>x. x < tol) s;
               Ut = transp U;
               P2 = matmul Ut (b_P1 b);
               N2 = matmul Ut (b_N1 b);
               c2 = matvec Ut (b_c1 b)
           in Inr \<lparr>d_Ut = Ut, d_s0 = s0, d_P2 = set_rows P2 s0 N2, d_N2 = N2, d_c2 = c2\<rparr>))"

text \<open>Line 144: the condition under which NotImplementedError is raised.\<close>

definition future_dependence :: "'pc numerics \<Rightarrow> built \<Rightarrow> desing \<Rightarrow> bool" where
  "future_dependence nu b d =
     (\<not> fast0_all nu (msk (d_c2 d) (d_s0 d)) \<or> \<not> fast0_all nu (matvec (msk (d_Ut d) (d_s0 d)) (b_c_P b)))"

text \<open>Lines 152 to 159: the constraint bound, with what is printed.\<close>

definition x_bar_warning :: string where
  "x_bar_warning =
     ''Parameter `x_bar` (maximum value of the constraint) not specified. Assuming x_bar = -1 for now.''"

definition resolve_x_bar :: "dsge \<Rightarrow> vec \<Rightarrow> error + real \<times> string list" where
  "resolve_x_bar m par =
     (if ''x_bar'' \<in> set (parameters m) then
        (case index_of (parameters m) ''x_bar'' of
           None \<Rightarrow> Inl (ValueError ''x_bar is not in list'')
         | Some i \<Rightarrow> if i < length par then Inr (par ! i, []) else Inl (IndexError ''list index out of range''))
      else if ''x_bar'' \<in> set (fst (parafunc m)) then
        (case index_of (fst (parafunc m)) ''x_bar'' of
           None \<Rightarrow> Inl (ValueError ''x_bar is not in list'')
         | Some i \<Rightarrow>
             (let v = snd (parafunc m) par
              in if i < length v then Inr (v ! i, []) else Inl (IndexError ''index out of range'')))
      else Inr (- 1, [x_bar_warning]))"

text \<open>
  Lines 161 to 169: the displacement and the two transition matrices. \<^verbatim>\<open>nl.inv(P2) @ c2*x_bar\<close>
  is \<^verbatim>\<open>(nl.inv(P2) @ c2)*x_bar\<close>. The handler of line 163 catches numpy's UFuncTypeError,
  raised when \<^verbatim>\<open>x_bar\<close> is not a number; here \<open>x_bar\<close> is a real.
\<close>

record solved =
  v_cx :: vec
  v_N :: mat
  v_A :: mat

definition solve :: "'pc numerics \<Rightarrow> built \<Rightarrow> desing \<Rightarrow> real \<Rightarrow> error + solved" where
  "solve nu b d x_bar =
     (case inv nu (d_P2 d) of
        Inl e \<Rightarrow> Inl e
      | Inr Pi \<Rightarrow>
          Inr \<lparr>v_cx = scale (matvec Pi (d_c2 d)) x_bar,
               v_N = matmul Pi (d_N2 d),
               v_A = matmul Pi (mat_add (d_N2 d) (outer (d_c2 d) (b_b2 b)))\<rparr>)"

text \<open>Lines 171 and 172: the reduction mask over the extended variable set.\<close>

definition reduction_mask :: "'pc numerics \<Rightarrow> solved \<Rightarrow> vec \<Rightarrow> mat \<Rightarrow> nat \<Rightarrow> bool list" where
  "reduction_mask nu v b2 ZZm dim_v =
     (let out_msk = msk_and (msk_and (msk_and (fast0_cols nu (v_N v)) (fast0_cols nu (v_A v)))
                       (fast0 nu b2)) (fast0 nu (v_cx v))
      in set_tail_n dim_v out_msk (msk_and (tail_n dim_v out_msk) (fast0_cols nu ZZm)))"

text \<open>Lines 176 and 177: without \<^verbatim>\<open>reduce_sys\<close>, the last \<open>dim_v\<close> entries are set to false.\<close>

definition applied_mask :: "bool option \<Rightarrow> nat \<Rightarrow> bool list \<Rightarrow> bool list" where
  "applied_mask reduce_sys dim_v out_msk =
     (if \<not> truthy reduce_sys
      then set_tail_n dim_v out_msk (replicate (length (tail_n dim_v out_msk)) False)
      else out_msk)"

text \<open>
  Lines 181 to 190: a cached matrix \<^verbatim>\<open>self.P\<close> of another size. In
  \<^verbatim>\<open>P_new[~self.out_msk][:, ~self.out_msk] = self.P\<close> the first index is a boolean mask, so
  \<^verbatim>\<open>P_new[~self.out_msk]\<close> is a new array: the assignment writes into that copy (and raises
  ValueError when \<^verbatim>\<open>self.P\<close> cannot be broadcast to its shape), and \<^verbatim>\<open>P_new\<close> keeps its
  zeros. A boolean mask whose length is not that of the indexed axis raises IndexError.
\<close>

definition shape_msg :: string where
  "shape_msg = ljust15 ''[get_sys:]'' @ '' Shape missmatch of P-matrix, number of states seems to differ!''"

definition broadcastable :: "nat \<times> nat \<Rightarrow> nat \<times> nat \<Rightarrow> bool" where
  \<comment> \<open>whether an array of the first shape can be assigned to a target of the second\<close>
  "broadcastable v t = ((fst v = fst t \<or> fst v = 1) \<and> (snd v = snd t \<or> snd v = 1))"

definition reconcile_P :: "bool list \<Rightarrow> bool list \<Rightarrow> mat \<Rightarrow> (error + mat) \<times> string list" where
  "reconcile_P out_msk s_out_msk Pm =
     (if nrows Pm < count_true (inv_msk s_out_msk) then
        (let P_new = zeros (length out_msk) (length out_msk);
             copy = msk_cols (msk P_new (inv_msk out_msk)) (inv_msk out_msk);
             msgs = (if shape copy \<noteq> shape Pm then [shape_msg] else [])
         in if broadcastable (shape Pm) (shape copy) then (Inr P_new, msgs)
            else (Inl (ValueError ''could not broadcast input array''), msgs))
      else if nrows Pm > count_true (inv_msk s_out_msk) then
        (if length s_out_msk \<noteq> nrows Pm \<or> length s_out_msk \<noteq> ncols Pm
         then (Inl (IndexError ''boolean index did not match indexed array''), [])
         else (Inr (msk_cols (msk Pm (inv_msk s_out_msk)) (inv_msk s_out_msk)), []))
      else (Inr Pm, []))"

definition reconcile ::
  "bool list \<Rightarrow> bool list \<Rightarrow> 'pc dsge_state \<Rightarrow> unit outcome \<times> 'pc dsge_state" where
  "reconcile out_msk s_out_msk s =
     (case self_P s of
        None \<Rightarrow> (Return (), s)
      | Some Pm \<Rightarrow>
          (case reconcile_P out_msk s_out_msk Pm of
             (Inl e, msgs) \<Rightarrow> (Raise e, s\<lparr>stdout := stdout s @ msgs\<rparr>)
           | (Inr P', msgs) \<Rightarrow> (Return (), s\<lparr>stdout := stdout s @ msgs, self_P := Some P'\<rparr>)))"

text \<open>Lines 193 to 207: what is stored on the model object.\<close>

definition where_cols :: "mat \<Rightarrow> nat list" where
  \<comment> \<open>\<^verbatim>\<open>np.where(M)[1]\<close>: the column of every non-zero entry, row by row\<close>
  "where_cols M = concat (map (\<lambda>r. filter (\<lambda>j. r ! j \<noteq> 0) [0..<length r]) M)"

definition emitted_sys :: "solved \<Rightarrow> mat \<Rightarrow> vec \<Rightarrow> real \<Rightarrow> bool list \<Rightarrow> sys_tuple" where
  "emitted_sys v J b2 x_bar out_msk =
     (let keep = inv_msk out_msk
      in (msk_cols (msk (v_N v) keep) keep, msk_cols (msk (v_A v) keep) keep, msk_cols J keep,
          msk (v_cx v) keep, msk b2 keep, x_bar))"

definition assign ::
  "dsge \<Rightarrow> vec \<Rightarrow> built \<Rightarrow> mat \<Rightarrow> solved \<Rightarrow> real \<Rightarrow> bool list \<Rightarrow> bool list \<Rightarrow>
   'pc dsge_state \<Rightarrow> 'pc dsge_state" where
  "assign m ppar b J v x_bar out_msk s_out_msk s =
     (let vv = msk (variables m) (inv_msk s_out_msk);
          hx0 = msk_cols (ZZ m ppar) (inv_msk s_out_msk)
      in s\<lparr>self_vv := Some vv,
            self_vx := Some (b_vv_x3 b),
            self_dim_x := Some (b_dim_x b),
            self_dim_v := Some (length vv),
            self_hx := Some (hx0, DD m ppar),
            self_obs_arg := Some (where_cols hx0),
            self_SIG := Some (msk (matmul (transp (BB m ppar)) (PSI m ppar)) (inv_msk s_out_msk)),
            self_sys := Some (emitted_sys v J (b_b2 b) x_bar out_msk)\<rparr>)"

text \<open>Lines 215 to 220: the stability test on what the preprocessing stored.\<close>

definition stability_test ::
  "'pc numerics \<Rightarrow> bool option \<Rightarrow> 'pc dsge_state \<Rightarrow> unit outcome \<times> 'pc dsge_state" where
  "stability_test nu ignore_tests s =
     (if \<not> truthy ignore_tests then
        (case precalc_mat s of
           None \<Rightarrow> (Raise (AttributeError ''precalc_mat''), s)
         | Some pc \<Rightarrow>
             if 0 < explosive nu pc
             then (Raise (ValueError (''Explosive dynamics detected: '' @ digits (explosive nu pc)
                            @ '' EV(s) > 1'')), s)
             else (Return (), s))
      else (Return (), s))"

definition future_msg :: string where
  "future_msg =
     ''The system depends directly or indirectly on whether the constraint holds in the future or not.''
     @ [CHR 0x0A]"

definition timing_msg :: string where
  \<comment> \<open>the elapsed time, read from the clock, is left out of the line\<close>
  "timing_msg = ljust15 ''[get_sys:]'' @ '' Creation of system matrices finished in %ss.''"

text \<open>Lines 148 to 222: from the constraint bound to the stability test.\<close>

definition emit ::
  "dsge \<Rightarrow> 'pc numerics \<Rightarrow> sys_args \<Rightarrow> bool option \<Rightarrow> bool option \<Rightarrow> int \<Rightarrow> int \<Rightarrow> vec \<Rightarrow> vec \<Rightarrow>
   built \<Rightarrow> mat \<Rightarrow> desing \<Rightarrow> 'pc dsge_state \<Rightarrow> unit outcome \<times> 'pc dsge_state" where
  "emit m nu a reduce_sys ignore_tests l_max k_max par ppar b OME d s =
     (let s3 = s\<lparr>stdout := stdout s @
                 (if 1 < a_verbose a
                  then [ljust15 ''[get_sys:]'' @ '' determinant of `P` is '' @ str_det nu (d_P2 d) @ ''.'']
                  else [])\<rparr>
      in case resolve_x_bar m par of
           Inl e \<Rightarrow> (Raise e, s3)
         | Inr (x_bar, warn) \<Rightarrow>
             (let s4 = s3\<lparr>stdout := stdout s3 @ warn\<rparr>
              in case solve nu b d x_bar of
                   Inl e \<Rightarrow> (Raise e, s4)
                 | Inr v \<Rightarrow>
                     (let dim_v = length (variables m);
                          full_msk = reduction_mask nu v (b_b2 b) (ZZ m ppar) dim_v;
                          s5 = s4\<lparr>self_out_msk := Some (tail_n dim_v full_msk)\<rparr>;
                          out_msk = applied_mask reduce_sys dim_v full_msk;
                          s_out_msk = tail_n dim_v out_msk
                      in case reconcile (tail_n dim_v full_msk) s_out_msk s5 of
                           (Raise e, s6) \<Rightarrow> (Raise e, s6)
                         | (Return u, s6) \<Rightarrow>
                             (let J = hstack (eye (b_dim_x b)) (mat_neg OME);
                                  s7 = assign m ppar b J v x_bar out_msk s_out_msk s6;
                                  s8 = s7\<lparr>stdout := stdout s7 @
                                          (if 0 < a_verbose a then [timing_msg] else [])\<rparr>
                              in case run_preprocess nu l_max k_max s8 of
                                   (Raise e, s9) \<Rightarrow> (Raise e, s9)
                                 | (Return u, s9) \<Rightarrow> stability_test nu ignore_tests s9))))"

definition get_sys ::
  "dsge \<Rightarrow> 'pc numerics \<Rightarrow> sys_args \<Rightarrow> 'pc dsge_state \<Rightarrow> unit outcome \<times> 'pc dsge_state" where
  "get_sys m nu a s =
     (case settings a s of
        (reduce_sys, ignore_tests, l_max, k_max, s1) \<Rightarrow>
          (let par = (case a_par a of None \<Rightarrow> p0 m | Some p \<Rightarrow> p)
           in case parse_par m par of
                Inl e \<Rightarrow> (Raise e, s1)
              | Inr ppar \<Rightarrow>
                  (let s2 = s1\<lparr>self_par := Some par, self_ppar := Some ppar\<rparr>
                   in case const_var m of
                        None \<Rightarrow> (Raise (NotImplementedError ''Package is only meant to work with OBCs''), s2)
                      | Some cv \<Rightarrow>
                          (case build m nu cv ppar of
                             Inl e \<Rightarrow> (Raise e, s2)
                           | Inr b \<Rightarrow>
                               (case re_bk nu (b_M1 b) (b_P1 b) (b_dim_x b) of
                                  Inl e \<Rightarrow> (Raise e, s2)
                                | Inr OME \<Rightarrow>
                                    (case desingularize nu (a_tol a) b of
                                       Inl e \<Rightarrow> (Raise e, s2)
                                     | Inr d \<Rightarrow>
                                         if future_dependence nu b d
                                         then (Raise (NotImplementedError future_msg), s2)
                                         else emit m nu a reduce_sys ignore_tests l_max k_max par ppar
                                                b OME d s2))))))"

subsection \<open>get\_par\<close>

text \<open>
  The first argument of \<^verbatim>\<open>get_par\<close> and \<^verbatim>\<open>set_par\<close> is \<^verbatim>\<open>None\<close>, a string or an array. What
  \<^verbatim>\<open>get_par\<close> returns is a number, a vector, a matrix (\<^verbatim>\<open>'cov_mat'\<close>), a batch of vectors (the
  samplers) or the list stored as \<^verbatim>\<open>fdict['init_value']\<close>, whose entries can be \<^verbatim>\<open>None\<close>.
  \<^verbatim>\<open>get_par\<close> is modelled at \<^verbatim>\<open>asdict=False\<close>, its default and the value of every call in
  the source; the keyword arguments \<^verbatim>\<open>**args\<close> forwarded to \<^verbatim>\<open>get_sys\<close> are a \<open>sys_args\<close>,
  whose fields \<open>a_par\<close> and \<open>a_verbose\<close> the calls overwrite.
\<close>

datatype dummy_arg = DNone | DStr string | DArr vec

datatype pyval = Scalar real | Vector vec | Matrix mat | Batch "vec list" | PyList "real option list"

record par_args =
  g_npar :: "vec option"
  g_full :: bool
  g_nsamples :: nat
  g_verbose :: bool
  g_kw :: sys_args

text \<open>
  What \<^verbatim>\<open>get_par\<close> and \<^verbatim>\<open>set_par\<close> call outside this embedding: the two samplers of
  \<^verbatim>\<open>core.py\<close>, which draw at random through numpy, scipy and a worker pool, \<^verbatim>\<open>post_mean\<close> of
  \<^verbatim>\<open>pydsge/stats.py\<close>, \<^verbatim>\<open>numpy.random.randn\<close>, and the formatting of printed values.
\<close>

record 'pc collab =
  prior_sampler :: "'pc dsge_state \<Rightarrow> nat \<Rightarrow> vec list outcome \<times> 'pc dsge_state"
  posterior_sampler :: "'pc dsge_state \<Rightarrow> nat \<Rightarrow> vec list outcome \<times> 'pc dsge_state"
  post_mean :: "'pc dsge_state \<Rightarrow> vec outcome"
  randn :: "nat \<Rightarrow> nat \<Rightarrow> mat"
  str_value :: "pyval \<Rightarrow> string"
  str_dicts :: "string list \<Rightarrow> vec \<Rightarrow> string list \<Rightarrow> vec \<Rightarrow> string"

definition verbose_nat :: "bool \<Rightarrow> nat" where
  "verbose_nat b = (if b then 1 else 0)"

definition quoted :: "string \<Rightarrow> string" where
  "quoted t = [CHR 0x27] @ t @ [CHR 0x27]"

definition as_vec :: "pyval \<Rightarrow> vec option" where
  \<comment> \<open>the value as a float array, where numpy can convert it to one\<close>
  "as_vec v =
     (case v of
        Vector x \<Rightarrow> Some x
      | PyList l \<Rightarrow> if list_all (\<lambda>e. e \<noteq> None) l then Some (map the l) else None
      | _ \<Rightarrow> None)"

definition sampling_token :: "dummy_arg \<Rightarrow> bool" where
  "sampling_token dmy = (dmy = DStr ''prior'' \<or> dmy = DStr ''post'' \<or> dmy = DStr ''posterior'')"

definition prior_mean :: "(string \<times> prior_entry) list \<Rightarrow> vec" where
  "prior_mean pr =
     map (\<lambda>(pp, e). if p_dist e = ''uniform'' then (1 / 2) * p_m2 e + (1 / 2) * p_m1 e else p_m2 e) pr"

definition adj_prior_mean :: "(string \<times> prior_entry) list \<Rightarrow> vec" where
  "adj_prior_mean pr =
     map (\<lambda>(pp, e). if p_dist e = ''inv_gamma_dynare'' then p_m2 e * 10
                     else if p_dist e = ''uniform'' then (1 / 2) * p_m2 e + (1 / 2) * p_m1 e
                     else p_m2 e) pr"

text \<open>
  Lines 487 to 490: the loop over \<^verbatim>\<open>range(self.ndim)\<close> writes into the list stored in
  \<^verbatim>\<open>fdict\<close>; what it has written stays when an index is out of range.
\<close>

fun init_fill :: "nat list \<Rightarrow> real option list \<Rightarrow> vec option \<Rightarrow> error option \<times> real option list" where
  "init_fill [] pc calib = (None, pc)"
| "init_fill (i # idx) pc calib =
     (if length pc \<le> i then (Some (IndexError ''list index out of range''), pc)
      else (case pc ! i of
              Some x \<Rightarrow> init_fill idx pc calib
            | None \<Rightarrow>
                (case calib of
                   None \<Rightarrow> (Some (IndexError ''index out of bounds''), pc)
                 | Some c \<Rightarrow>
                     if i < length c then init_fill idx (pc[i := Some (c ! i)]) calib
                     else (Some (IndexError ''index out of bounds''), pc))))"

text \<open>
  Lines 449 to 494: the named parametrizations. \<^verbatim>\<open>self.par\<close> is set to \<^verbatim>\<open>self.par_fix\<close> first
  and only the last branch, the unknown name, puts the old value back.
\<close>

definition named_par ::
  "dsge \<Rightarrow> 'pc collab \<Rightarrow> par_args \<Rightarrow> string \<Rightarrow> 'pc dsge_state \<Rightarrow> pyval outcome \<times> 'pc dsge_state" where
  "named_par m co g t s =
     (let old_par = self_par s;
          s1 = s\<lparr>self_par := Some (par_fix m)\<rparr>
      in if t = ''prior'' then
           (case prior_sampler co s1 (g_nsamples g) of
              (Raise e, s2) \<Rightarrow> (Raise e, s2)
            | (Return xs, s2) \<Rightarrow> (Return (Batch xs), s2))
         else if t = ''post'' \<or> t = ''posterior'' then
           (case posterior_sampler co s1 (g_nsamples g) of
              (Raise e, s2) \<Rightarrow> (Raise e, s2)
            | (Return xs, s2) \<Rightarrow> (Return (Batch xs), s2))
         else if t = ''posterior_mean'' \<or> t = ''post_mean'' then
           (case post_mean co s1 of
              Raise e \<Rightarrow> (Raise e, s1)
            | Return x \<Rightarrow> (Return (Vector x), s1))
         else if t = ''mode'' then
           (case fdict_mode_x s1 of
              None \<Rightarrow> (Raise (KeyError (quoted ''mode_x'')), s1)
            | Some x \<Rightarrow> (Return (Vector x), s1))
         else if t = ''mcmc_mode'' \<or> t = ''mode_mcmc'' \<or> t = ''posterior_mode'' \<or> t = ''post_mode'' then
           (case fdict_mcmc_mode_x s1 of
              None \<Rightarrow> (Raise (KeyError (quoted ''mcmc_mode_x'')), s1)
            | Some x \<Rightarrow> (Return (Vector x), s1))
         else if t = ''calib'' then
           (case take_idx (par_fix m) (prior_arg m) of
              None \<Rightarrow> (Raise (IndexError ''index out of bounds''), s1)
            | Some x \<Rightarrow> (Return (Vector x), s1))
         else if t = ''prior_mean'' then (Return (Vector (prior_mean (prior m))), s1)
         else if t = ''adj_prior_mean'' then (Return (Vector (adj_prior_mean (prior m))), s1)
         else if t = ''init'' then
           (case fdict_init_value s1 of
              None \<Rightarrow> (Raise (KeyError (quoted ''init_value'')), s1)
            | Some pc \<Rightarrow>
                (case ndim s1 of
                   None \<Rightarrow> (Raise (AttributeError ''ndim''), s1)
                 | Some n \<Rightarrow>
                     (case init_fill [0..<n] pc (take_idx (par_fix m) (prior_arg m)) of
                        (Some e, pc') \<Rightarrow> (Raise e, s1\<lparr>fdict_init_value := Some pc'\<rparr>)
                      | (None, pc') \<Rightarrow> (Return (PyList pc'), s1\<lparr>fdict_init_value := Some pc'\<rparr>))))
         else (Raise (KeyError (''Parameter or parametrization '' @ quoted t @ '' does not exist.'')),
               s1\<lparr>self_par := old_par\<rparr>))"

text \<open>Lines 496 to 519, at \<^verbatim>\<open>asdict=False\<close>: the full vector, or the estimated subset.\<close>

fun tile_put :: "vec \<Rightarrow> nat list \<Rightarrow> nat \<Rightarrow> vec list \<Rightarrow> error + vec list" where
  \<comment> \<open>\<^verbatim>\<open>par[i][prior_arg] = par_cand[i]\<close> for the \<open>n\<close> rows of the tiled \<open>pars\<close>\<close>
  "tile_put pars idx 0 cand = Inr []"
| "tile_put pars idx (Suc n) [] = Inl (IndexError ''index out of bounds'')"
| "tile_put pars idx (Suc n) (c # cand) =
     (case put_idx pars idx c of
        Inl e \<Rightarrow> Inl e
      | Inr row \<Rightarrow> (case tile_put pars idx n cand of Inl e \<Rightarrow> Inl e | Inr rows \<Rightarrow> Inr (row # rows)))"

definition finish ::
  "dsge \<Rightarrow> 'pc collab \<Rightarrow> par_args \<Rightarrow> dummy_arg \<Rightarrow> vec \<Rightarrow> pyval \<Rightarrow> 'pc dsge_state \<Rightarrow>
   pyval outcome \<times> 'pc dsge_state" where
  "finish m co g dmy pars par_cand s =
     (if g_full g then
        (if sampling_token dmy then
           (case par_cand of
              Batch xs \<Rightarrow>
                (case tile_put pars (prior_arg m) (g_nsamples g) xs of
                   Inl e \<Rightarrow> (Raise e, s)
                 | Inr rows \<Rightarrow> (Return (Batch rows), s))
            | _ \<Rightarrow> (Raise (TypeError ''the candidates are not a batch''), s))
         else
           (case as_vec par_cand of
              None \<Rightarrow> (Raise (TypeError ''the candidate is not a float vector''), s)
            | Some c \<Rightarrow>
                (case put_idx pars (prior_arg m) c of
                   Inl e \<Rightarrow> (Raise e, s)
                 | Inr par \<Rightarrow> (Return (Vector par), s))))
      else if 1 < g_nsamples g \<and> \<not> sampling_token dmy then
        (case as_vec par_cand of
           None \<Rightarrow> (Raise (TypeError ''the candidate is not a float vector''), s)
         | Some c \<Rightarrow>
             (Return (Batch (map (\<lambda>z. map2 (\<lambda>x e. x * (1 + e / 1000)) c z)
                               (randn co (g_nsamples g) (length c)))), s))
      else (Return par_cand, s))"

definition get_par_msg :: "'pc collab \<Rightarrow> bool \<Rightarrow> string \<Rightarrow> pyval \<Rightarrow> string list" where
  "get_par_msg co verbose t p =
     (if verbose then [ljust15 ''[get_par:]'' @ t @ '' = '' @ str_value co p] else [])"

text \<open>
  Lines 416 to 494. \<^verbatim>\<open>get_par\<close> calls itself with the names \<^verbatim>\<open>'best'\<close>, \<^verbatim>\<open>'mode'\<close> and
  \<^verbatim>\<open>'init'\<close>, at \<^verbatim>\<open>full=False\<close>; \<open>rec\<close> stands for that call. A bare \<^verbatim>\<open>except\<close> catches every
  exception and keeps the state the failed call left. For an array whose length is neither
  that of \<^verbatim>\<open>par_fix\<close> nor that of \<^verbatim>\<open>prior_arg\<close> the source goes on to compare the array with
  names, which numpy refuses for more than one entry: the model raises ValueError there.
\<close>

definition prelude ::
  "dsge \<Rightarrow> 'pc numerics \<Rightarrow> par_args \<Rightarrow> 'pc dsge_state \<Rightarrow> vec outcome \<times> 'pc dsge_state" where
  \<comment> \<open>lines 402 to 414: a first compilation when there is no \<^verbatim>\<open>self.par\<close>, then \<^verbatim>\<open>pars\<close>\<close>
  "prelude m nu g s =
     (case (if self_par s = None
            then get_sys m nu ((g_kw g)\<lparr>a_par := None, a_verbose := verbose_nat (g_verbose g)\<rparr>) s
            else (Return (), s)) of
        (Raise e, s1) \<Rightarrow> (Raise e, s1)
      | (Return u, s1) \<Rightarrow>
          (let pars0 = (case self_par s1 of Some p \<Rightarrow> p | None \<Rightarrow> par_fix m)
           in case g_npar g of
                None \<Rightarrow> (Return pars0, s1)
              | Some npar \<Rightarrow>
                  if length npar \<noteq> length (par_fix m) then
                    (case put_idx pars0 (prior_arg m) npar of
                       Inl e \<Rightarrow> (Raise e, s1)
                     | Inr pars \<Rightarrow> (Return pars, s1))
                  else (Return npar, s1)))"

definition get_par_body ::
  "(string \<Rightarrow> 'pc dsge_state \<Rightarrow> pyval outcome \<times> 'pc dsge_state) \<Rightarrow> dsge \<Rightarrow> 'pc numerics \<Rightarrow>
   'pc collab \<Rightarrow> par_args \<Rightarrow> dummy_arg \<Rightarrow> 'pc dsge_state \<Rightarrow> pyval outcome \<times> 'pc dsge_state" where
  "get_par_body rec m nu co g dmy s =
     (case prelude m nu g s of
        (Raise e, s1) \<Rightarrow> (Raise e, s1)
      | (Return pars, s1) \<Rightarrow>
          (let pfnames = fst (parafunc m);
               pffunc = snd (parafunc m);
               pars_str = parameters m
           in case dmy of
                DNone \<Rightarrow>
                  (case take_idx pars (prior_arg m) of
                     Some c \<Rightarrow> finish m co g dmy pars (Vector c) s1
                   | None \<Rightarrow>
                       (case rec ''best'' s1 of
                          (Raise e, s2) \<Rightarrow> (Raise e, s2)
                        | (Return v, s2) \<Rightarrow> finish m co g dmy pars v s2))
              | DArr d \<Rightarrow>
                  if length d = length (par_fix m) then
                    (case take_idx d (prior_arg m) of
                       None \<Rightarrow> (Raise (IndexError ''index out of bounds''), s1)
                     | Some c \<Rightarrow> finish m co g dmy pars (Vector c) s1)
                  else if length d = length (prior_arg m) then finish m co g dmy pars (Vector d) s1
                  else (Raise (ValueError ''The truth value of an array is ambiguous''), s1)
              | DStr t \<Rightarrow>
                  if t \<in> set pars_str then
                    (case index_of pars_str t of
                       None \<Rightarrow> (Raise (ValueError (t @ '' is not in list'')), s1)
                     | Some i \<Rightarrow>
                         if i < length pars
                         then (Return (Scalar (pars ! i)),
                               s1\<lparr>stdout := stdout s1 @ get_par_msg co (g_verbose g) t (Scalar (pars ! i))\<rparr>)
                         else (Raise (IndexError ''index out of bounds''), s1))
                  else if t \<in> set pfnames then
                    (case index_of pfnames t of
                       None \<Rightarrow> (Raise (ValueError (t @ '' is not in list'')), s1)
                     | Some i \<Rightarrow>
                         if i < length (pffunc pars)
                         then (Return (Scalar (pffunc pars ! i)),
                               s1\<lparr>stdout := stdout s1 @ get_par_msg co (g_verbose g) t (Scalar (pffunc pars ! i))\<rparr>)
                         else (Raise (IndexError ''index out of bounds''), s1))
                  else if t = ''cov_mat'' then
                    (case get_sys m nu (default_args\<lparr>a_par := Some pars\<rparr>) s1 of
                       (Raise e, s2) \<Rightarrow> (Raise e, s2)
                     | (Return u, s2) \<Rightarrow>
                         (case self_ppar s2 of
                            None \<Rightarrow> (Raise (AttributeError ''ppar''), s2)
                          | Some pp \<Rightarrow>
                              (Return (Matrix (QQ m pp)),
                               s2\<lparr>stdout := stdout s2 @ get_par_msg co (g_verbose g) t (Matrix (QQ m pp))\<rparr>)))
                  else if t = ''best'' then
                    (case rec ''mode'' s1 of
                       (Return v, s2) \<Rightarrow> finish m co g dmy pars v s2
                     | (Raise e, s2) \<Rightarrow>
                         (case rec ''init'' s2 of
                            (Raise e', s3) \<Rightarrow> (Raise e', s3)
                          | (Return v, s3) \<Rightarrow> finish m co g dmy pars v s3))
                  else
                    (case named_par m co g t s1 of
                       (Raise e, s2) \<Rightarrow> (Raise e, s2)
                     | (Return v, s2) \<Rightarrow> finish m co g dmy (par_fix m) v s2)))"

definition rec_args :: "par_args \<Rightarrow> par_args" where
  \<comment> \<open>\<^verbatim>\<open>get_par(self, name, asdict=False, full=False, verbose=verbose, **args)\<close>\<close>
  "rec_args g = g\<lparr>g_npar := None, g_full := False, g_nsamples := 1\<rparr>"

text \<open>
  The recursion unrolled: \<^verbatim>\<open>'mode'\<close> and \<^verbatim>\<open>'init'\<close> call nothing, \<^verbatim>\<open>'best'\<close> calls these two,
  \<^verbatim>\<open>None\<close> calls \<^verbatim>\<open>'best'\<close>. The innermost level is never asked to call itself.
\<close>

definition get_par_leaf ::
  "dsge \<Rightarrow> 'pc numerics \<Rightarrow> 'pc collab \<Rightarrow> par_args \<Rightarrow> dummy_arg \<Rightarrow> 'pc dsge_state \<Rightarrow>
   pyval outcome \<times> 'pc dsge_state" where
  "get_par_leaf m nu co g dmy s =
     get_par_body (\<lambda>t s'. (Raise (ValueError ''recursion depth''), s')) m nu co g dmy s"

definition get_par_inner ::
  "dsge \<Rightarrow> 'pc numerics \<Rightarrow> 'pc collab \<Rightarrow> par_args \<Rightarrow> dummy_arg \<Rightarrow> 'pc dsge_state \<Rightarrow>
   pyval outcome \<times> 'pc dsge_state" where
  "get_par_inner m nu co g dmy s =
     get_par_body (\<lambda>t s'. get_par_leaf m nu co (rec_args g) (DStr t) s') m nu co g dmy s"

definition get_par ::
  "dsge \<Rightarrow> 'pc numerics \<Rightarrow> 'pc collab \<Rightarrow> par_args \<Rightarrow> dummy_arg \<Rightarrow> 'pc dsge_state \<Rightarrow>
   pyval outcome \<times> 'pc dsge_state" where
  "get_par m nu co g dmy s =
     get_par_body (\<lambda>t s'. get_par_inner m nu co (rec_args g) (DStr t) s') m nu co g dmy s"

definition default_par_args :: par_args where
  "default_par_args = \<lparr>g_npar = None, g_full = True, g_nsamples = 1, g_verbose = False, g_kw = default_args\<rparr>"

subsection \<open>set\_par\<close>

text \<open>
  \<^verbatim>\<open>npar\<close> is an array the caller holds: it is passed by reference. The arrays the caller
  can see are the list \<open>h\<close>, an array's address is its position, and \<^verbatim>\<open>npar.copy()\<close> appends
  a new array. \<^verbatim>\<open>set_par\<close> returns the arrays with its outcome and the state. A string as
  long as \<^verbatim>\<open>par_fix\<close> is taken for a parameter vector (line 557): \<^verbatim>\<open>get_sys\<close> then stores its
  settings and hands the characters to \<^verbatim>\<open>pcompile\<close>, which the model lets fail with
  TypeError. An array compared with the parameter names (line 564) is refused by numpy.
\<close>

record set_args =
  sp_setpar :: "real option"
  sp_npar :: "nat option"
  sp_verbose :: bool
  sp_kw :: sys_args

text \<open>Lines 583 to 595: the process noise of an attached filter.\<close>

definition update_filter :: "dsge \<Rightarrow> 'pc dsge_state \<Rightarrow> unit outcome \<times> 'pc dsge_state" where
  "update_filter m s =
     (case self_filter s of
        None \<Rightarrow> (Return (), s)
      | Some f \<Rightarrow>
          (case self_ppar s of
             None \<Rightarrow> (Raise (AttributeError ''ppar''), s)
           | Some pp \<Rightarrow>
               (let f1 = f\<lparr>eps_cov := QQ m pp\<rparr>;
                    s1 = s\<lparr>self_filter := Some f1\<rparr>
                in if f_name f1 = ''KalmanFilter'' then
                     (case self_SIG s1 of
                        None \<Rightarrow> (Raise (AttributeError ''SIG''), s1)
                      | Some SIG \<Rightarrow>
                          (let CO = matmul SIG (eps_cov f1)
                           in (Return (), s1\<lparr>self_filter := Some (f1\<lparr>f_Q := matmul CO (transp CO)\<rparr>)\<rparr>)))
                   else if f_name f1 = ''ParticleFilter'' then (Raise (NotImplementedError []), s1)
                   else (Return (), s1\<lparr>self_filter := Some (f1\<lparr>f_Q := matmul (QQ m pp) (QQ m pp)\<rparr>)\<rparr>))))"

text \<open>Lines 581 to 604: the recompilation with the new vector, the filter, the value returned.\<close>

definition recompile ::
  "dsge \<Rightarrow> 'pc numerics \<Rightarrow> 'pc collab \<Rightarrow> set_args \<Rightarrow> vec \<Rightarrow> 'pc dsge_state \<Rightarrow>
   pyval outcome \<times> 'pc dsge_state" where
  "recompile m nu co sa par s =
     (case get_sys m nu ((sp_kw sa)\<lparr>a_par := Some par, a_verbose := verbose_nat (sp_verbose sa)\<rparr>) s of
        (Raise e, s1) \<Rightarrow> (Raise e, s1)
      | (Return u, s1) \<Rightarrow>
          (case update_filter m s1 of
             (Raise e, s2) \<Rightarrow> (Raise e, s2)
           | (Return u, s2) \<Rightarrow>
               (let s3 = s2\<lparr>stdout := stdout s2 @
                            (if sp_verbose sa
                             then (case self_par s2 of
                                     None \<Rightarrow> []
                                   | Some p \<Rightarrow>
                                       [ljust15 ''[set_par:]'' @ '' Parameter(s):'' @ [CHR 0x0A]
                                        @ str_dicts co (parameters m) p (fst (parafunc m)) (snd (parafunc m) p)])
                             else [])\<rparr>
                in get_par m nu co default_par_args DNone s3)))"

definition via_get_par ::
  "dsge \<Rightarrow> 'pc numerics \<Rightarrow> 'pc collab \<Rightarrow> set_args \<Rightarrow> dummy_arg \<Rightarrow> 'pc dsge_state \<Rightarrow>
   pyval outcome \<times> 'pc dsge_state" where
  \<comment> \<open>\<^verbatim>\<open>par = get_par(self, dummy=dummy, asdict=False, full=True, verbose=verbose, **args)\<close>, then
     line 581 on; \<^verbatim>\<open>list(par)\<close> is a parameter vector only when \<^verbatim>\<open>par\<close> is one\<close>
  "via_get_par m nu co sa dmy s =
     (case get_par m nu co \<lparr>g_npar = None, g_full = True, g_nsamples = 1, g_verbose = sp_verbose sa,
                             g_kw = sp_kw sa\<rparr> dmy s of
        (Raise e, s1) \<Rightarrow> (Raise e, s1)
      | (Return v, s1) \<Rightarrow>
          (case as_vec v of
             None \<Rightarrow> (Raise (TypeError ''the parameters are not a float vector''), s1)
           | Some par \<Rightarrow> recompile m nu co sa par s1))"

definition set_par ::
  "dsge \<Rightarrow> 'pc numerics \<Rightarrow> 'pc collab \<Rightarrow> set_args \<Rightarrow> dummy_arg \<Rightarrow> 'pc dsge_state \<Rightarrow> vec list \<Rightarrow>
   (pyval outcome \<times> 'pc dsge_state) \<times> vec list" where
  "set_par m nu co sa dmy s h =
     (let pfnames = fst (parafunc m);
          pars_str = parameters m;
          par = (case self_par s of Some p \<Rightarrow> p | None \<Rightarrow> par_fix m)
      in case sp_setpar sa of
           None \<Rightarrow>
             (case dmy of
                DNone \<Rightarrow> (via_get_par m nu co sa dmy s, h)
              | DArr d \<Rightarrow>
                  if length d = length (par_fix m) then (recompile m nu co sa d s, h)
                  else if length d = length (prior_arg m) then
                    (case put_idx par (prior_arg m) d of
                       Inl e \<Rightarrow> ((Raise e, s), h)
                     | Inr par' \<Rightarrow> (recompile m nu co sa par' s, h))
                  else (via_get_par m nu co sa dmy s, h)
              | DStr t \<Rightarrow>
                  if length t = length (par_fix m)
                  then ((Raise (TypeError ''the parameters are the characters of a string''),
                         snd (snd (snd (snd (settings (sp_kw sa) s))))), h)
                  else if length t = length (prior_arg m)
                  then ((Raise (ValueError ''could not convert string to float''), s), h)
                  else (via_get_par m nu co sa dmy s, h))
         | Some setpar \<Rightarrow>
             (case dmy of
                DStr t \<Rightarrow>
                  if t \<in> set pars_str then
                    (case sp_npar sa of
                       Some a \<Rightarrow>
                         (let h1 = h @ [h ! a];
                              c = length h;
                              i = (if length (h1 ! c) = length (prior_arg m) then index_of (prior_names m) t
                                   else index_of pars_str t)
                          in case i of
                               None \<Rightarrow> ((Raise (ValueError (t @ '' is not in list'')), s), h1)
                             | Some j \<Rightarrow>
                                 if j < length (h1 ! c)
                                 then ((Return (Vector ((h1 ! c)[j := setpar])), s), h1[c := (h1 ! c)[j := setpar]])
                                 else ((Raise (IndexError ''index out of bounds''), s), h1))
                     | None \<Rightarrow>
                         (case index_of pars_str t of
                            None \<Rightarrow> ((Raise (ValueError (t @ '' is not in list'')), s), h)
                          | Some j \<Rightarrow>
                              if j < length par then (recompile m nu co sa (par[j := setpar]) s, h)
                              else ((Raise (IndexError ''index out of bounds''), s), h)))
                  else if t \<in> set pfnames then
                    ((Raise (SyntaxError (''Can not set parameter '' @ quoted t
                                @ '' that is a function of other parameters.'')), s), h)
                  else ((Raise (SyntaxError (''Parameter '' @ quoted t @ '' is not defined for this model.'')), s), h)
              | DNone \<Rightarrow>
                  ((Raise (SyntaxError (''Parameter '' @ quoted ''None'' @ '' is not defined for this model.'')), s), h)
              | DArr d \<Rightarrow> ((Raise (ValueError ''The truth value of an array is ambiguous''), s), h)))"

subsection \<open>Names used in the statements\<close>

definition known_tokens :: "string list" where
  \<comment> \<open>the strings \<^verbatim>\<open>get_par\<close> compares its argument with, lines 436 to 486\<close>
  "known_tokens = [''cov_mat'', ''best'', ''prior'', ''post'', ''posterior'', ''posterior_mean'',
     ''post_mean'', ''mode'', ''mcmc_mode'', ''mode_mcmc'', ''posterior_mode'', ''post_mode'', ''calib'',
     ''prior_mean'', ''adj_prior_mean'', ''init'']"

definition the_par :: "dsge \<Rightarrow> sys_args \<Rightarrow> vec" where
  \<comment> \<open>line 70: the vector compiled, the calibration when none is given\<close>
  "the_par m a = (case a_par a of None \<Rightarrow> p0 m | Some p \<Rightarrow> p)"

definition lookup_error :: "string \<Rightarrow> error" where
  \<comment> \<open>line 493\<close>
  "lookup_error t = KeyError (''Parameter or parametrization '' @ quoted t @ '' does not exist.'')"

subsection \<open>A model with two variables\<close>

text \<open>
  The variables are the constrained \<open>r\<close> and \<open>y\<close>, both forward looking. With \<open>x\<close> the
  forward-looking slot of \<open>y\<close>, the system \<open>P1 z' = M1 z\<close> that \<^verbatim>\<open>get_sys\<close> builds is
  \<open>x' = - r\<^sub>-\<close>, \<open>r = x + 5/2 r\<^sub>-\<close>, \<open>y = x\<close>: \<open>P1\<close> is the identity matrix, the eigenvalues are
  \<open>0\<close>, \<open>1/2\<close> and \<open>2\<close>, and the bounded solution is \<open>x = - 2 r\<^sub>-\<close>. The lagged \<open>y\<close> enters
  nothing: its position of the reduction mask is true. The numerical routines are
  tabulated at the matrices that occur. The preprocessing stores its arguments and reports
  no explosive eigenvalue.
\<close>

type_synonym toy_pc = "sys_tuple \<times> int \<times> int"

definition toy :: dsge where
  "toy = \<lparr>variables = [''r'', ''y''], parameters = [''beta'', ''x_bar''], const_var = Some ''r'',
     parafunc = ([''kappa''], \<lambda>p. [2 * hd p]),
     par_fix = [99 / 100, - 1 / 100], prior_arg = [0], prior_names = [''beta''],
     prior = [(''beta'', \<lparr>p_dist = ''uniform'', p_m2 = 0, p_m1 = 1\<rparr>)],
     p0 = [99 / 100, - 1 / 100],
     pcompile = (\<lambda>p. Inr p), compile = (\<lambda>p. Inr p),
     AA = (\<lambda>p. [[1, - 1]]), BB = (\<lambda>p. [[0, 0]]), CC = (\<lambda>p. [[- 1, 0]]),
     bb = (\<lambda>p. [0, 1, 5 / 2, 0]), PSI = (\<lambda>p. [[1]]), ZZ = (\<lambda>p. [[1, 0]]), DD = (\<lambda>p. [0]),
     QQ = (\<lambda>p. [[1 / 10]])\<rparr>"

definition toy_future :: dsge where
  \<comment> \<open>the system is \<open>3/4 r = 3/8 r\<^sub>-\<close>, \<open>r = x\<close>, \<open>y = x\<close>: the constrained variable enters the
     equation at the current date, \<open>P1\<close> is singular with singular values \<open>5/4\<close>, \<open>1\<close>, \<open>0\<close>, and the
     bounded solution is \<open>x = 1/2 r\<^sub>-\<close>\<close>
  "toy_future = toy\<lparr>AA := (\<lambda>p. [[0, 0]]), BB := (\<lambda>p. [[3 / 4, 0]]), CC := (\<lambda>p. [[- 3 / 8, 0]]),
     bb := (\<lambda>p. [1, 1, 0, 0])\<rparr>"

definition toy_nu :: "toy_pc numerics" where
  "toy_nu = \<lparr>near0 = (\<lambda>x. \<bar>x\<bar> < 1 / 10 ^ 8),
     re_bk = (\<lambda>M P d.
        if M = [[0, - 1, 0], [1, 5 / 2, 0], [1, 0, 0]] \<and> P = eye 3 \<and> d = 1 then Inr [[- 2, 0]]
        else if M = [[0, - 3 / 8, 0], [1, 0, 0], [1, 0, 0]] \<and> P = [[0, - 3 / 4, 0], [0, 1, 0], [0, 0, 1]] \<and> d = 1
        then Inr [[1 / 2, 0]]
        else Inl (ValueError ''not tabulated'')),
     svd = (\<lambda>M.
        if M = eye 3 then Inr (eye 3, [1, 1, 1], eye 3)
        else if M = [[0, - 3 / 4, 0], [0, 1, 0], [0, 0, 1]]
        then Inr ([[- 3 / 5, 0, 4 / 5], [4 / 5, 0, 3 / 5], [0, 1, 0]], [5 / 4, 1, 0],
                  [[0, 1, 0], [0, 0, 1], [1, 0, 0]])
        else Inl (LinAlgError ''not tabulated'')),
     inv = (\<lambda>M. if M = eye 3 then Inr (eye 3) else Inl (LinAlgError ''not tabulated'')),
     str_det = (\<lambda>M. ''1.00e+00''),
     preprocess = (\<lambda>sy l k. Inr (sy, l, k)),
     explosive = (\<lambda>pc. 0)\<rparr>"

definition toy_co :: "toy_pc collab" where
  "toy_co = \<lparr>prior_sampler = (\<lambda>s n. (Return (replicate n [1 / 2]), s)),
     posterior_sampler = (\<lambda>s n. (Return (replicate n [1 / 2]), s)),
     post_mean = (\<lambda>s. Return [1 / 2]),
     randn = (\<lambda>n k. zeros n k),
     str_value = (\<lambda>v. ''value''),
     str_dicts = (\<lambda>ns p fs q. ''parameters'')\<rparr>"

definition fresh :: "toy_pc dsge_state" where
  \<comment> \<open>a model object on which nothing has been compiled\<close>
  "fresh = \<lparr>lks = None, fdict_reduce_sys = None, fdict_ignore_tests = None, fdict_mode_x = None,
     fdict_mcmc_mode_x = None, fdict_init_value = None, ndim = None, self_par = None, self_ppar = None,
     self_out_msk = None, self_P = None, self_vv = None, self_vx = None, self_dim_x = None,
     self_dim_v = None, self_hx = None, self_obs_arg = None, self_SIG = None, self_sys = None,
     precalc_mat = None, self_filter = None, stdout = []\<rparr>"

definition npar_index :: "dsge \<Rightarrow> string \<Rightarrow> vec \<Rightarrow> nat option" where
  \<comment> \<open>lines 567 to 570: the position written, in the estimated subset or in the full list\<close>
  "npar_index m t npar =
     (if length npar = length (prior_arg m) then index_of (prior_names m) t
      else index_of (parameters m) t)"

definition toy_pf :: dsge where
  \<comment> \<open>the model with two variables, \<open>x_bar\<close> declared as a functional parameter\<close>
  "toy_pf = toy\<lparr>parameters := [''beta'', ''gamma''],
     parafunc := ([''kappa'', ''x_bar''], \<lambda>p. [2 * hd p, - 1 / 2])\<rparr>"

definition toy_plain :: dsge where
  \<comment> \<open>the model with two variables, \<open>x_bar\<close> not declared\<close>
  "toy_plain = toy\<lparr>parameters := [''beta'', ''gamma'']\<rparr>"

definition cur_par :: "dsge \<Rightarrow> 'pc dsge_state \<Rightarrow> vec" where
  \<comment> \<open>lines 550 and 551: a copy of \<^verbatim>\<open>self.par\<close>, of \<^verbatim>\<open>self.par_fix\<close> when there is none\<close>
  "cur_par m s = (case self_par s of Some p \<Rightarrow> p | None \<Rightarrow> par_fix m)"

definition kalman :: filter_obj where
  \<comment> \<open>a Kalman filter attached to the model with two variables\<close>
  "kalman = \<lparr>f_name = ''KalmanFilter'', eps_cov = [[1]], f_Q = [[1, 0], [0, 1]]\<rparr>"

subsection \<open>A model with three variables\<close>

text \<open>
  The model with two variables and a third variable \<open>w\<close> that follows \<open>w = rho w\<^sub>-\<close> and
  is not forward looking; the bounded solution is again \<open>x = - 2 r\<^sub>-\<close>. \<open>P1\<close> is a permutation
  matrix, so it is its own matrix \<open>U\<close> with singular values one, and \<open>P2\<close> is the identity. The lagged \<open>y\<close> enters nothing and is not
  observed: the cached mask is \<open>[False, True, False]\<close>. In \<open>tri_obs\<close> the observation loads on
  \<open>y\<close> as well and no position of the mask is true.
\<close>

definition tri :: dsge where
  "tri = \<lparr>variables = [''r'', ''y'', ''w''], parameters = [''rho'', ''x_bar''], const_var = Some ''r'',
     parafunc = ([], \<lambda>p. []),
     par_fix = [9 / 10, - 1 / 100], prior_arg = [0], prior_names = [''rho''],
     prior = [(''rho'', \<lparr>p_dist = ''beta'', p_m2 = 1 / 2, p_m1 = 1 / 5\<rparr>)],
     p0 = [9 / 10, - 1 / 100],
     pcompile = (\<lambda>p. Inr p), compile = (\<lambda>p. Inr p),
     AA = (\<lambda>p. [[1, - 1, 0], [0, 0, 0]]), BB = (\<lambda>p. [[0, 0, 0], [0, 0, - 1]]),
     CC = (\<lambda>p. [[- 1, 0, 0], [0, 0, hd p]]),
     bb = (\<lambda>p. [0, 1, 0, 5 / 2, 0, 0]), PSI = (\<lambda>p. [[0], [1]]), ZZ = (\<lambda>p. [[1, 0, 0]]), DD = (\<lambda>p. [0]),
     QQ = (\<lambda>p. [[1 / 10]])\<rparr>"

definition tri_obs :: dsge where
  "tri_obs = tri\<lparr>ZZ := (\<lambda>p. [[1, 1, 0]])\<rparr>"

definition perm4 :: mat where
  "perm4 = [[1, 0, 0, 0], [0, 0, 0, 1], [0, 1, 0, 0], [0, 0, 1, 0]]"

text \<open>
  A model in which a position of the forward-looking block is numerically inert. The
  system is \<open>x' = 0\<close>, \<open>b y = - c w\<^sub>-\<close>, \<open>r = 1/2 r\<^sub>-\<close>, \<open>y = x\<close>, with \<open>b\<close> near \<open>50000\<close> and \<open>c\<close> the
  product of \<open>b\<close> and \<open>10 ^ 10\<close>. \<open>P1\<close> is singular; \<open>1 + b * b = h * h\<close> with \<open>h\<close> rational, so its
  singular value decomposition \<open>U diag(h, 1, 1, 0) Vt\<close> is rational, and so is the inverse of
  \<open>P2\<close>. The bounded solution is \<open>x = - 10 ^ 10 w\<^sub>-\<close>. The arithmetic is exact.
\<close>

definition big_b :: real where
  "big_b = 9999999999 / 200000"

definition big_h :: real where
  "big_h = 10000000001 / 200000"

definition big_c :: real where
  "big_c = 499999999950000"

definition inert :: dsge where
  "inert = tri\<lparr>AA := (\<lambda>p. [[1, 1, 0], [0, 0, 0]]), BB := (\<lambda>p. [[0, 0, 0], [0, big_b, 0]]),
     CC := (\<lambda>p. [[0, 0, 0], [0, 0, big_c]]), bb := (\<lambda>p. [0, 0, 0, 1 / 2, 0, 0])\<rparr>"

definition inert_P1 :: mat where
  "inert_P1 = [[- 1, 0, 0, 0], [0, 0, - big_b, 0], [0, 1, 0, 0], [0, 0, 1, 0]]"

definition inert_U :: mat where
  "inert_U = [[0, - 1, 0, 0], [- big_b / big_h, 0, 0, 1 / big_h], [0, 0, 1, 0],
              [1 / big_h, 0, 0, big_b / big_h]]"

definition inert_Vt :: mat where
  "inert_Vt = [[0, 0, 1, 0], [1, 0, 0, 0], [0, 1, 0, 0], [0, 0, 0, 1]]"

definition inert_P2 :: mat where
  "inert_P2 = [[0, 0, big_h, 0], [1, 0, 0, 0], [0, 1, 0, 0], [big_b / big_h, 0, 0, big_c / big_h]]"

definition inert_Pi :: mat where
  "inert_Pi = [[0, 1, 0, 0], [0, 0, 1, 0], [1 / big_h, 0, 0, 0], [0, - big_b / big_c, 0, big_h / big_c]]"

definition diag :: "vec \<Rightarrow> mat" where
  "diag s = map (\<lambda>i. map (\<lambda>j. if i = j then s ! i else 0) [0..<length s]) [0..<length s]"

definition ex_nu :: "toy_pc numerics" where
  \<comment> \<open>the numerical routines, tabulated at the matrices of the two models\<close>
  "ex_nu = \<lparr>near0 = (\<lambda>x. \<bar>x\<bar> < 1 / 10 ^ 8),
     re_bk = (\<lambda>M P d.
        if M = [[0, - 1, 0, 0], [0, 0, 0, 9 / 10], [1, 5 / 2, 0, 0], [1, 0, 0, 0]] \<and> P = perm4 \<and> d = 1
        then Inr [[- 2, 0, 0]]
        else if M = [[0, 0, 0, 0], [0, 0, 0, big_c], [0, 1 / 2, 0, 0], [1, 0, 0, 0]] \<and> P = inert_P1 \<and> d = 1
        then Inr [[0, 0, - big_c / big_b]]
        else Inl (ValueError ''not tabulated'')),
     svd = (\<lambda>M.
        if M = perm4 then Inr (perm4, [1, 1, 1, 1], eye 4)
        else if M = inert_P1 then Inr (inert_U, [big_h, 1, 1, 0], inert_Vt)
        else Inl (LinAlgError ''not tabulated'')),
     inv = (\<lambda>M. if M = eye 4 then Inr (eye 4)
                 else if M = inert_P2 then Inr inert_Pi
                 else Inl (LinAlgError ''not tabulated'')),
     str_det = (\<lambda>M. ''1.00e+00''),
     preprocess = (\<lambda>sy l k. Inr (sy, l, k)),
     explosive = (\<lambda>pc. 0)\<rparr>"

definition full_mask :: "dsge \<Rightarrow> 'pc numerics \<Rightarrow> vec \<Rightarrow> built \<Rightarrow> solved \<Rightarrow> bool list" where
  \<comment> \<open>the local \<^verbatim>\<open>out_msk\<close> after line 172\<close>
  "full_mask m nu ppar b v = reduction_mask nu v (b_b2 b) (ZZ m ppar) (length (variables m))"

definition used_mask :: "dsge \<Rightarrow> 'pc numerics \<Rightarrow> bool option \<Rightarrow> vec \<Rightarrow> built \<Rightarrow> solved \<Rightarrow> bool list" where
  \<comment> \<open>the local \<^verbatim>\<open>out_msk\<close> after line 177, with which the system is pruned\<close>
  "used_mask m nu reduce_sys ppar b v =
     applied_mask reduce_sys (length (variables m)) (full_mask m nu ppar b v)"

definition conformant :: "dsge \<Rightarrow> vec \<Rightarrow> built \<Rightarrow> solved \<Rightarrow> bool" where
  \<comment> \<open>the shapes numpy requires in lines 171 and 172: \<open>N\<close>, \<open>A\<close>, \<open>b2\<close> and \<open>cx\<close> range over the
     extended variables, \<open>ZZ\<close> over the variables\<close>
  "conformant m ppar b v =
     (ncols (v_N v) = length (b_b2 b) \<and> ncols (v_A v) = length (b_b2 b) \<and>
      length (v_cx v) = length (b_b2 b) \<and> ncols (ZZ m ppar) = length (variables m) \<and>
      length (variables m) \<le> length (b_b2 b))"

definition inert_at :: "'pc numerics \<Rightarrow> solved \<Rightarrow> vec \<Rightarrow> nat \<Rightarrow> bool" where
  \<comment> \<open>column \<open>i\<close> of \<open>N\<close> and of \<open>A\<close>, and entry \<open>i\<close> of \<open>b2\<close> and of \<open>cx\<close>, are numerically zero\<close>
  "inert_at nu v b2 i =
     (list_all (near0 nu) (col (v_N v) i) \<and> list_all (near0 nu) (col (v_A v) i) \<and>
      near0 nu (b2 ! i) \<and> near0 nu (v_cx v ! i))"

section \<open>Properties\<close>

subsection \<open>Lookup errors\<close>

lemma named_par_unknown:
  assumes "t \<notin> set known_tokens"
  shows "named_par m co g t s = (Raise (lookup_error t), s)"
  using assms by (simp add: named_par_def known_tokens_def lookup_error_def)

lemma get_par_body_unknown:
  assumes "t \<notin> set (parameters m)" "t \<notin> set (fst (parafunc m))" "t \<notin> set known_tokens"
  shows "get_par_body rec m nu co g (DStr t) s =
           (case prelude m nu g s of
              (Raise e, s1) \<Rightarrow> (Raise e, s1)
            | (Return pars, s1) \<Rightarrow> (Raise (lookup_error t), s1))"
proof -
  have a: "t \<noteq> ''cov_mat''" "t \<noteq> ''best''"
    using assms(3) by (auto simp: known_tokens_def)
  show ?thesis
    using assms(1,2) a
    by (simp add: get_par_body_def named_par_unknown[OF assms(3)] split: prod.splits outcome.splits)
qed

lemma prelude_par_set:
  assumes "self_par s = Some p" "g_npar g = None"
  shows "prelude m nu g s = (Return p, s)"
  using assms by (simp add: prelude_def)

lemma prelude_state_par_set:
  assumes "self_par s = Some p"
  shows "snd (prelude m nu g s) = s"
  using assms by (simp add: prelude_def split: option.splits sum.splits)

text \<open>
  C8. \<^verbatim>\<open>get_par\<close> with a string that is no structural parameter, no functional parameter and
  none of the recognised names raises: always an exception, and the KeyError of line 493
  whenever lines 402 to 414 (the first compilation, \<^verbatim>\<open>npar\<close>) have passed. \<^verbatim>\<open>set_par\<close> with a
  value and the name of a functional parameter, or a name the model does not define, raises
  SyntaxError. The exception is the outcome of the call, and the model object is left as it
  was when the exception was raised.
\<close>

theorem lookup_errors_raised:
  "(t \<notin> set (parameters m) \<and> t \<notin> set (fst (parafunc m)) \<and> t \<notin> set known_tokens \<longrightarrow>
      (\<exists>e s'. get_par m nu co g (DStr t) s = (Raise e, s')) \<and>
      (\<forall>pars s1. prelude m nu g s = (Return pars, s1) \<longrightarrow>
         get_par m nu co g (DStr t) s = (Raise (lookup_error t), s1))) \<and>
   (t \<notin> set (parameters m) \<and> t \<in> set (fst (parafunc m)) \<and> sp_setpar sa = Some x \<longrightarrow>
      set_par m nu co sa (DStr t) s h =
        ((Raise (SyntaxError (''Can not set parameter '' @ quoted t
            @ '' that is a function of other parameters.'')), s), h)) \<and>
   (t \<notin> set (parameters m) \<and> t \<notin> set (fst (parafunc m)) \<and> sp_setpar sa = Some x \<longrightarrow>
      set_par m nu co sa (DStr t) s h =
        ((Raise (SyntaxError (''Parameter '' @ quoted t @ '' is not defined for this model.'')), s), h))"
proof (intro conjI impI)
  assume a: "t \<notin> set (parameters m) \<and> t \<notin> set (fst (parafunc m)) \<and> t \<notin> set known_tokens"
  then have b: "get_par m nu co g (DStr t) s =
           (case prelude m nu g s of
              (Raise e, s1) \<Rightarrow> (Raise e, s1)
            | (Return pars, s1) \<Rightarrow> (Raise (lookup_error t), s1))"
    unfolding get_par_def by (intro get_par_body_unknown) simp_all
  show "\<exists>e s'. get_par m nu co g (DStr t) s = (Raise e, s')"
    unfolding b by (cases "prelude m nu g s"; cases "fst (prelude m nu g s)") auto
  show "\<forall>pars s1. prelude m nu g s = (Return pars, s1) \<longrightarrow>
         get_par m nu co g (DStr t) s = (Raise (lookup_error t), s1)"
    unfolding b by simp
next
  assume "t \<notin> set (parameters m) \<and> t \<in> set (fst (parafunc m)) \<and> sp_setpar sa = Some x"
  then show "set_par m nu co sa (DStr t) s h =
        ((Raise (SyntaxError (''Can not set parameter '' @ quoted t
            @ '' that is a function of other parameters.'')), s), h)"
    by (simp add: set_par_def)
next
  assume "t \<notin> set (parameters m) \<and> t \<notin> set (fst (parafunc m)) \<and> sp_setpar sa = Some x"
  then show "set_par m nu co sa (DStr t) s h =
        ((Raise (SyntaxError (''Parameter '' @ quoted t @ '' is not defined for this model.'')), s), h)"
    by (simp add: set_par_def)
qed

text \<open>The three errors on the model with two variables.\<close>

theorem lookup_errors_raised_witness:
  "get_par toy toy_nu toy_co default_par_args (DStr ''steady'') (fresh\<lparr>self_par := Some [99 / 100, - 1 / 100]\<rparr>)
     = (Raise (lookup_error ''steady''), fresh\<lparr>self_par := Some [99 / 100, - 1 / 100]\<rparr>) \<and>
   set_par toy toy_nu toy_co \<lparr>sp_setpar = Some 3, sp_npar = None, sp_verbose = False, sp_kw = default_args\<rparr>
       (DStr ''kappa'') fresh []
     = ((Raise (SyntaxError (''Can not set parameter '' @ quoted ''kappa''
            @ '' that is a function of other parameters.'')), fresh), []) \<and>
   set_par toy toy_nu toy_co \<lparr>sp_setpar = Some 3, sp_npar = None, sp_verbose = False, sp_kw = default_args\<rparr>
       (DStr ''steady'') fresh []
     = ((Raise (SyntaxError (''Parameter '' @ quoted ''steady'' @ '' is not defined for this model.'')), fresh), [])"
proof -
  let ?s = "fresh\<lparr>self_par := Some [99 / 100, - 1 / 100]\<rparr>"
  let ?sa = "\<lparr>sp_setpar = Some 3, sp_npar = None, sp_verbose = False, sp_kw = default_args\<rparr>"
  have p: "prelude toy toy_nu default_par_args ?s = (Return [99 / 100, - 1 / 100], ?s)"
    by (simp add: prelude_def default_par_args_def)
  have h1: "''steady'' \<notin> set (parameters toy) \<and> ''steady'' \<notin> set (fst (parafunc toy)) \<and> ''steady'' \<notin> set known_tokens"
    by (simp add: toy_def known_tokens_def)
  have h2: "''kappa'' \<notin> set (parameters toy) \<and> ''kappa'' \<in> set (fst (parafunc toy)) \<and> sp_setpar ?sa = Some 3"
    by (simp add: toy_def)
  have h3: "''steady'' \<notin> set (parameters toy) \<and> ''steady'' \<notin> set (fst (parafunc toy)) \<and> sp_setpar ?sa = Some 3"
    by (simp add: toy_def)
  from lookup_errors_raised[where t = "''steady''" and m = toy and nu = toy_nu and co = toy_co
      and g = default_par_args and s = ?s and sa = ?sa and x = 3 and h = "[]"] h1 p
  have a: "get_par toy toy_nu toy_co default_par_args (DStr ''steady'') ?s = (Raise (lookup_error ''steady''), ?s)"
    by blast
  from lookup_errors_raised[where t = "''steady''" and m = toy and nu = toy_nu and co = toy_co
      and g = default_par_args and s = fresh and sa = ?sa and x = 3 and h = "[]"] h3
  have c: "set_par toy toy_nu toy_co ?sa (DStr ''steady'') fresh []
     = ((Raise (SyntaxError (''Parameter '' @ quoted ''steady'' @ '' is not defined for this model.'')), fresh), [])"
    by blast
  from lookup_errors_raised[where t = "''kappa''" and m = toy and nu = toy_nu and co = toy_co
      and g = default_par_args and s = fresh and sa = ?sa and x = 3 and h = "[]"] h2
  have b: "set_par toy toy_nu toy_co ?sa (DStr ''kappa'') fresh []
     = ((Raise (SyntaxError (''Can not set parameter '' @ quoted ''kappa''
            @ '' that is a function of other parameters.'')), fresh), [])"
    by blast
  show ?thesis using a b c by blast
qed

text \<open>
  C9. For a string that is no parameter and none of the recognised names, line 453 sets
  \<^verbatim>\<open>self.par\<close> to \<^verbatim>\<open>self.par_fix\<close> and line 492 puts the old value back before the KeyError is
  raised: the failed lookup leaves the model object as lines 402 to 414 left it, and
  unchanged altogether when it had a parameter vector.
\<close>

theorem failed_lookup_restores_par:
  assumes "t \<notin> set (parameters m)" "t \<notin> set (fst (parafunc m))" "t \<notin> set known_tokens"
  shows "named_par m co g t s1 =
           (Raise (lookup_error t), s1\<lparr>self_par := Some (par_fix m)\<rparr>\<lparr>self_par := self_par s1\<rparr>) \<and>
         snd (get_par m nu co g (DStr t) s) = snd (prelude m nu g s) \<and>
         (self_par s \<noteq> None \<longrightarrow>
            snd (get_par m nu co g (DStr t) s) = s \<and>
            (g_npar g = None \<longrightarrow> get_par m nu co g (DStr t) s = (Raise (lookup_error t), s)))"
proof (intro conjI impI)
  show "named_par m co g t s1 =
           (Raise (lookup_error t), s1\<lparr>self_par := Some (par_fix m)\<rparr>\<lparr>self_par := self_par s1\<rparr>)"
    using named_par_unknown[OF assms(3)] by simp
  have b: "get_par m nu co g (DStr t) s =
           (case prelude m nu g s of
              (Raise e, s1) \<Rightarrow> (Raise e, s1)
            | (Return pars, s1) \<Rightarrow> (Raise (lookup_error t), s1))"
    unfolding get_par_def using assms by (rule get_par_body_unknown)
  show c: "snd (get_par m nu co g (DStr t) s) = snd (prelude m nu g s)"
    unfolding b by (simp split: prod.splits outcome.splits)
  {
    assume "self_par s \<noteq> None"
    then obtain p where p: "self_par s = Some p" by auto
    show "snd (get_par m nu co g (DStr t) s) = s"
      using c prelude_state_par_set[OF p] by simp
    assume "g_npar g = None"
    then show "get_par m nu co g (DStr t) s = (Raise (lookup_error t), s)"
      unfolding b using prelude_par_set[OF p] by simp
  }
qed

text \<open>A failed lookup on a model object whose parameter vector is not the calibration.\<close>

theorem failed_lookup_restores_par_witness:
  "get_par toy toy_nu toy_co default_par_args (DStr ''steady'') (fresh\<lparr>self_par := Some [1, 2]\<rparr>)
     = (Raise (lookup_error ''steady''), fresh\<lparr>self_par := Some [1, 2]\<rparr>)"
proof -
  have h: "''steady'' \<notin> set (parameters toy)" "''steady'' \<notin> set (fst (parafunc toy))"
    "''steady'' \<notin> set known_tokens"
    by (simp_all add: toy_def known_tokens_def)
  have p: "self_par (fresh\<lparr>self_par := Some [1, 2]\<rparr>) \<noteq> None" "g_npar default_par_args = None"
    by (simp_all add: default_par_args_def)
  show ?thesis
    using failed_lookup_restores_par[OF h, where s = "fresh\<lparr>self_par := Some [1, 2]\<rparr>"
        and g = default_par_args and nu = toy_nu and co = toy_co] p
    by blast
qed

subsection \<open>set\_par on a vector of the caller\<close>

text \<open>
  C10, amended. \<^verbatim>\<open>set_par\<close> with the name of a structural parameter, a value and a vector
  \<^verbatim>\<open>npar\<close> looks the name up in \<^verbatim>\<open>prior_names\<close> when \<^verbatim>\<open>npar\<close> has the length of the estimated
  subset and in the full parameter list otherwise. When the name is found at a position
  inside \<^verbatim>\<open>npar\<close>, it returns a copy of \<^verbatim>\<open>npar\<close> that differs at that position only;
  otherwise it raises ValueError (the name is not in the list) or IndexError. In each case
  nothing is compiled: the model object, \<^verbatim>\<open>self.par\<close> and \<^verbatim>\<open>self.sys\<close> with it, is unchanged,
  and so is every array of the caller, \<^verbatim>\<open>npar\<close> among them.
\<close>

theorem set_par_npar_copy:
  assumes "t \<in> set (parameters m)" "sp_setpar sa = Some x" "sp_npar sa = Some a" "a < length h"
  shows "\<exists>out h'. set_par m nu co sa (DStr t) s h = ((out, s), h') \<and>
           (\<forall>k<length h. h' ! k = h ! k) \<and>
           out = (case npar_index m t (h ! a) of
                    None \<Rightarrow> Raise (ValueError (t @ '' is not in list''))
                  | Some j \<Rightarrow> if j < length (h ! a) then Return (Vector ((h ! a)[j := x]))
                              else Raise (IndexError ''index out of bounds''))"
  using assms
  by (auto simp: set_par_def npar_index_def Let_def nth_append split: option.splits)

text \<open>Setting \<open>x_bar\<close> in a vector of full length.\<close>

theorem set_par_npar_copy_witness:
  "set_par toy toy_nu toy_co \<lparr>sp_setpar = Some 3, sp_npar = Some 0, sp_verbose = False, sp_kw = default_args\<rparr>
      (DStr ''x_bar'') fresh [[7, 8]] = ((Return (Vector [7, 3]), fresh), [[7, 8], [7, 3]])"
proof -
  let ?sa = "\<lparr>sp_setpar = Some 3, sp_npar = Some 0, sp_verbose = False, sp_kw = default_args\<rparr>"
  have h: "''x_bar'' \<in> set (parameters toy)" "sp_setpar ?sa = Some 3" "sp_npar ?sa = Some 0"
    "0 < length [[7, 8 :: real]]"
    by (simp_all add: toy_def)
  have i: "npar_index toy ''x_bar'' [7, 8] = Some 1"
    by (simp add: npar_index_def toy_def)
  from set_par_npar_copy[OF h, where nu = toy_nu and co = toy_co and s = fresh]
  obtain out h' where o: "set_par toy toy_nu toy_co ?sa (DStr ''x_bar'') fresh [[7, 8]] = ((out, fresh), h')"
    "out = Return (Vector [7, 3])"
    using i by auto
  have "h' = [[7, 8], [7, 3]]"
    using o(1) by (simp add: set_par_def toy_def)
  then show ?thesis using o by simp
qed

text \<open>
  As C10 is written it fails: \<open>x_bar\<close> is a structural parameter that is not estimated, the
  vector has the length of the estimated subset, and \<^verbatim>\<open>prior_names.index\<close> raises.
\<close>

theorem set_par_npar_counterexample:
  "fst (fst (set_par toy toy_nu toy_co
      \<lparr>sp_setpar = Some 3, sp_npar = Some 0, sp_verbose = False, sp_kw = default_args\<rparr>
      (DStr ''x_bar'') fresh [[7]])) = Raise (ValueError ''x_bar is not in list'')"
  by (simp add: set_par_def toy_def)

subsection \<open>The runs of get\_sys that return\<close>

lemma get_sys_reaches_emit:
  assumes "get_sys m nu a s = (Return (), s')"
  obtains rs it l k s1 ppar cv b OME d where
    "settings a s = (rs, it, l, k, s1)"
    "parse_par m (the_par m a) = Inr ppar"
    "const_var m = Some cv"
    "build m nu cv ppar = Inr b"
    "re_bk nu (b_M1 b) (b_P1 b) (b_dim_x b) = Inr OME"
    "desingularize nu (a_tol a) b = Inr d"
    "\<not> future_dependence nu b d"
    "emit m nu a rs it l k (the_par m a) ppar b OME d
       (s1\<lparr>self_par := Some (the_par m a), self_ppar := Some ppar\<rparr>) = (Return (), s')"
proof -
  obtain rs it l k s1 where st: "settings a s = (rs, it, l, k, s1)"
    by (metis prod_cases5)
  show ?thesis
    using assms that[OF st]
    unfolding get_sys_def st the_par_def
    by (simp add: Let_def split: sum.splits option.splits if_splits)
qed

lemma emit_returns:
  assumes "emit m nu a rs it l k par ppar b OME d s = (Return (), s')"
  obtains x_bar warn v s6 pc where
    "resolve_x_bar m par = Inr (x_bar, warn)"
    "solve nu b d x_bar = Inr v"
    "reconcile (tail_n (length (variables m)) (reduction_mask nu v (b_b2 b) (ZZ m ppar) (length (variables m))))
       (tail_n (length (variables m))
          (applied_mask rs (length (variables m))
             (reduction_mask nu v (b_b2 b) (ZZ m ppar) (length (variables m)))))
       (s\<lparr>stdout := stdout s @
             (if 1 < a_verbose a
              then [ljust15 ''[get_sys:]'' @ '' determinant of `P` is '' @ str_det nu (d_P2 d) @ ''.'']
              else []) @ warn,
           self_out_msk := Some (tail_n (length (variables m))
              (reduction_mask nu v (b_b2 b) (ZZ m ppar) (length (variables m))))\<rparr>) = (Return (), s6)"
    "preprocess nu (emitted_sys v (hstack (eye (b_dim_x b)) (mat_neg OME)) (b_b2 b) x_bar
        (applied_mask rs (length (variables m))
             (reduction_mask nu v (b_b2 b) (ZZ m ppar) (length (variables m))))) l k = Inr pc"
    "truthy it \<or> explosive nu pc = 0"
    "s' = (assign m ppar b (hstack (eye (b_dim_x b)) (mat_neg OME)) v x_bar
             (applied_mask rs (length (variables m))
                (reduction_mask nu v (b_b2 b) (ZZ m ppar) (length (variables m))))
             (tail_n (length (variables m))
                (applied_mask rs (length (variables m))
                   (reduction_mask nu v (b_b2 b) (ZZ m ppar) (length (variables m)))))
             s6)\<lparr>stdout := stdout s6 @ (if 0 < a_verbose a then [timing_msg] else []),
                   precalc_mat := Some pc\<rparr>"
  using assms
  unfolding emit_def
  apply (simp add: Let_def split: sum.splits prod.splits outcome.splits)
  apply (auto simp: run_preprocess_def stability_test_def assign_def Let_def
      split: sum.splits option.splits if_splits)
  done

subsection \<open>The constraint's future value in the singular block\<close>

text \<open>
  C1. In a run of \<^verbatim>\<open>get_sys\<close> that reaches line 144 (the parameters are parsed, a constraint
  variable is declared and found, the Klein solver and the SVD have returned), if the
  projection of \<open>c2\<close> on the rows of the singular values below \<open>tol\<close>, or \<^verbatim>\<open>U.T[s0] @ c_P\<close>, is
  not numerically zero, \<^verbatim>\<open>get_sys\<close> raises the NotImplementedError of line 145, and no system is
  emitted: \<^verbatim>\<open>self.sys\<close>, the reduction mask, \<^verbatim>\<open>vv\<close>, \<^verbatim>\<open>hx\<close>, \<^verbatim>\<open>SIG\<close>, the cached \<^verbatim>\<open>P\<close> and
  \<^verbatim>\<open>precalc_mat\<close> are what they were.
\<close>

theorem future_dependence_raises:
  assumes "parse_par m (the_par m a) = Inr ppar"
    and "const_var m = Some cv"
    and "build m nu cv ppar = Inr b"
    and "re_bk nu (b_M1 b) (b_P1 b) (b_dim_x b) = Inr OME"
    and "desingularize nu (a_tol a) b = Inr d"
    and "\<not> fast0_all nu (msk (d_c2 d) (d_s0 d)) \<or>
         \<not> fast0_all nu (matvec (msk (d_Ut d) (d_s0 d)) (b_c_P b))"
  shows "fst (get_sys m nu a s) = Raise (NotImplementedError future_msg) \<and>
         self_sys (snd (get_sys m nu a s)) = self_sys s \<and>
         self_out_msk (snd (get_sys m nu a s)) = self_out_msk s \<and>
         self_vv (snd (get_sys m nu a s)) = self_vv s \<and>
         self_hx (snd (get_sys m nu a s)) = self_hx s \<and>
         self_SIG (snd (get_sys m nu a s)) = self_SIG s \<and>
         self_P (snd (get_sys m nu a s)) = self_P s \<and>
         precalc_mat (snd (get_sys m nu a s)) = precalc_mat s"
proof -
  obtain rs it l k s1 where st: "settings a s = (rs, it, l, k, s1)"
    by (metis prod_cases5)
  have s1: "s1 = s\<lparr>stdout := stdout s1, lks := lks s1, fdict_reduce_sys := fdict_reduce_sys s1,
                    fdict_ignore_tests := fdict_ignore_tests s1\<rparr>"
    using st by (auto simp: settings_def Let_def split: option.splits if_splits prod.splits)
  have fd: "future_dependence nu b d"
    using assms(6) by (simp add: future_dependence_def)
  have g: "get_sys m nu a s =
      (Raise (NotImplementedError future_msg), s1\<lparr>self_par := Some (the_par m a), self_ppar := Some ppar\<rparr>)"
    using assms(1-5) fd unfolding get_sys_def st the_par_def by (simp add: Let_def)
  show ?thesis
    unfolding g by (subst s1, simp)+
qed

text \<open>
  The model in which the constrained variable enters the equation at the current date:
  the projection of \<open>c2\<close> on the singular row is \<open>3/5\<close>.
\<close>

theorem future_dependence_raises_witness:
  "fst (get_sys toy_future toy_nu default_args fresh) = Raise (NotImplementedError future_msg) \<and>
   self_sys (snd (get_sys toy_future toy_nu default_args fresh)) = None"
proof -
  let ?b = "\<lparr>b_c1 = [0, 1, 0], b_c_P = [0, 0, 0], b_b2 = [1, 0, 0],
             b_N1 = [[0, - 3 / 8, 0], [0, 0, 0], [1, 0, 0]],
             b_P1 = [[0, - 3 / 4, 0], [0, 1, 0], [0, 0, 1]],
             b_M1 = [[0, - 3 / 8, 0], [1, 0, 0], [1, 0, 0]], b_vv_x3 = [''y''], b_dim_x = 1\<rparr>"
  let ?d = "\<lparr>d_Ut = [[- 3 / 5, 4 / 5, 0], [0, 0, 1], [4 / 5, 3 / 5, 0]], d_s0 = [False, False, True],
             d_P2 = [[0, 5 / 4, 0], [0, 0, 1], [0, - 3 / 10, 0]],
             d_N2 = [[0, 9 / 40, 0], [1, 0, 0], [0, - 3 / 10, 0]], d_c2 = [4 / 5, 0, 3 / 5]\<rparr>"
  have 1: "parse_par toy_future (the_par toy_future default_args) = Inr [99 / 100, - 1 / 100]"
    by (simp add: parse_par_def the_par_def toy_future_def toy_def default_args_def)
  have 2: "const_var toy_future = Some ''r''"
    by (simp add: toy_future_def toy_def)
  have 3: "build toy_future toy_nu ''r'' [99 / 100, - 1 / 100] = Inr ?b"
    by code_simp
  have 4: "re_bk toy_nu (b_M1 ?b) (b_P1 ?b) (b_dim_x ?b) = Inr [[1 / 2, 0]]"
    by code_simp
  have 5: "desingularize toy_nu (a_tol default_args) ?b = Inr ?d"
    by code_simp
  have 6: "\<not> fast0_all toy_nu (msk (d_c2 ?d) (d_s0 ?d)) \<or>
         \<not> fast0_all toy_nu (matvec (msk (d_Ut ?d) (d_s0 ?d)) (b_c_P ?b))"
    by code_simp
  have 7: "self_sys fresh = None"
    by (simp add: fresh_def)
  show ?thesis
    using future_dependence_raises[OF 1 2 3 4 5 6, of fresh] 7 by simp
qed

subsection \<open>The constraint bound\<close>

lemma reconcile_frame:
  assumes "reconcile om sm s = (out, s6)"
  shows "s6 = s\<lparr>stdout := stdout s6, self_P := self_P s6\<rparr>" "\<exists>msgs. stdout s6 = stdout s @ msgs"
  using assms
  by (auto simp: reconcile_def split: option.splits prod.splits sum.splits)

text \<open>
  C4. In a run of \<^verbatim>\<open>get_sys\<close> that returns, the bound \<open>x_bar\<close> of the emitted system is the
  entry of the compiled parameter vector at the position of the structural parameter
  \<open>x_bar\<close> when there is one; otherwise the entry of the functional parameters, computed
  from that vector, at the position of \<open>x_bar\<close> among their names when it is declared there;
  otherwise \<open>- 1\<close>, and the warning of line 158 is printed. The displacement is
  \<^verbatim>\<open>cx = (inv(P2) @ c2) * x_bar\<close>, of which the emitted system keeps the entries the mask
  leaves.
\<close>

theorem x_bar_precedence:
  assumes "get_sys m nu a s = (Return (), s')"
  shows "\<exists>N2 A2 J2 cx b2 x_bar.
      self_sys s' = Some (N2, A2, J2, cx, b2, x_bar) \<and>
      (''x_bar'' \<in> set (parameters m) \<longrightarrow>
         (\<exists>i. index_of (parameters m) ''x_bar'' = Some i \<and> i < length (the_par m a) \<and>
              x_bar = the_par m a ! i)) \<and>
      (''x_bar'' \<notin> set (parameters m) \<and> ''x_bar'' \<in> set (fst (parafunc m)) \<longrightarrow>
         (\<exists>i. index_of (fst (parafunc m)) ''x_bar'' = Some i \<and>
              i < length (snd (parafunc m) (the_par m a)) \<and>
              x_bar = snd (parafunc m) (the_par m a) ! i)) \<and>
      (''x_bar'' \<notin> set (parameters m) \<and> ''x_bar'' \<notin> set (fst (parafunc m)) \<longrightarrow>
         x_bar = - 1 \<and> x_bar_warning \<in> set (stdout s')) \<and>
      (\<exists>cv ppar b d Pi v.
         parse_par m (the_par m a) = Inr ppar \<and> const_var m = Some cv \<and>
         build m nu cv ppar = Inr b \<and> desingularize nu (a_tol a) b = Inr d \<and>
         inv nu (d_P2 d) = Inr Pi \<and> solve nu b d x_bar = Inr v \<and>
         v_cx v = scale (matvec Pi (d_c2 d)) x_bar \<and>
         cx = msk (v_cx v)
                (inv_msk (applied_mask (fdict_reduce_sys s') (length (variables m))
                            (reduction_mask nu v (b_b2 b) (ZZ m ppar) (length (variables m))))))"
proof -
  from assms obtain rs it l k s1 ppar cv b OME d where
    st: "settings a s = (rs, it, l, k, s1)"
    and pp: "parse_par m (the_par m a) = Inr ppar"
    and cv: "const_var m = Some cv"
    and b: "build m nu cv ppar = Inr b"
    and d: "desingularize nu (a_tol a) b = Inr d"
    and em: "emit m nu a rs it l k (the_par m a) ppar b OME d
       (s1\<lparr>self_par := Some (the_par m a), self_ppar := Some ppar\<rparr>) = (Return (), s')"
    by (rule get_sys_reaches_emit)
  let ?s2 = "s1\<lparr>self_par := Some (the_par m a), self_ppar := Some ppar\<rparr>"
  let ?dv = "length (variables m)"
  from em obtain x_bar warn v s6 pc where
    xb: "resolve_x_bar m (the_par m a) = Inr (x_bar, warn)"
    and sv: "solve nu b d x_bar = Inr v"
    and rc: "reconcile (tail_n ?dv (reduction_mask nu v (b_b2 b) (ZZ m ppar) ?dv))
       (tail_n ?dv (applied_mask rs ?dv (reduction_mask nu v (b_b2 b) (ZZ m ppar) ?dv)))
       (?s2\<lparr>stdout := stdout ?s2 @
             (if 1 < a_verbose a
              then [ljust15 ''[get_sys:]'' @ '' determinant of `P` is '' @ str_det nu (d_P2 d) @ ''.'']
              else []) @ warn,
           self_out_msk := Some (tail_n ?dv (reduction_mask nu v (b_b2 b) (ZZ m ppar) ?dv))\<rparr>)
         = (Return (), s6)"
    and s': "s' = (assign m ppar b (hstack (eye (b_dim_x b)) (mat_neg OME)) v x_bar
             (applied_mask rs ?dv (reduction_mask nu v (b_b2 b) (ZZ m ppar) ?dv))
             (tail_n ?dv (applied_mask rs ?dv (reduction_mask nu v (b_b2 b) (ZZ m ppar) ?dv)))
             s6)\<lparr>stdout := stdout s6 @ (if 0 < a_verbose a then [timing_msg] else []),
                   precalc_mat := Some pc\<rparr>"
    by (rule emit_returns)
  note s6 = reconcile_frame(1)[OF rc]
  from reconcile_frame(2)[OF rc] obtain msgs where out6: "stdout s6 = stdout ?s2 @
             (if 1 < a_verbose a
              then [ljust15 ''[get_sys:]'' @ '' determinant of `P` is '' @ str_det nu (d_P2 d) @ ''.'']
              else []) @ warn @ msgs"
    by auto
  have warn_out: "set warn \<subseteq> set (stdout s')"
    unfolding s' using out6 by (auto simp: assign_def Let_def)
  have rs: "fdict_reduce_sys s' = rs"
    unfolding s' using st by (subst s6) (auto simp: assign_def Let_def settings_def split: prod.splits)
  have sys: "self_sys s' = Some (emitted_sys v (hstack (eye (b_dim_x b)) (mat_neg OME)) (b_b2 b) x_bar
       (applied_mask rs ?dv (reduction_mask nu v (b_b2 b) (ZZ m ppar) ?dv)))"
    unfolding s' by (simp add: assign_def Let_def)
  obtain Pi where Pi: "inv nu (d_P2 d) = Inr Pi" "v_cx v = scale (matvec Pi (d_c2 d)) x_bar"
    using sv by (auto simp: solve_def split: sum.splits)
  have 1: "''x_bar'' \<in> set (parameters m) \<longrightarrow>
         (\<exists>i. index_of (parameters m) ''x_bar'' = Some i \<and> i < length (the_par m a) \<and>
              x_bar = the_par m a ! i)"
    using xb by (auto simp: resolve_x_bar_def split: option.splits if_splits)
  have 2: "''x_bar'' \<notin> set (parameters m) \<and> ''x_bar'' \<in> set (fst (parafunc m)) \<longrightarrow>
         (\<exists>i. index_of (fst (parafunc m)) ''x_bar'' = Some i \<and>
              i < length (snd (parafunc m) (the_par m a)) \<and>
              x_bar = snd (parafunc m) (the_par m a) ! i)"
    using xb by (auto simp: resolve_x_bar_def Let_def split: option.splits if_splits)
  have 3: "''x_bar'' \<notin> set (parameters m) \<and> ''x_bar'' \<notin> set (fst (parafunc m)) \<longrightarrow>
         x_bar = - 1 \<and> x_bar_warning \<in> set (stdout s')"
    using xb warn_out by (auto simp: resolve_x_bar_def split: option.splits if_splits)
  show ?thesis
    using sys 1 2 3 pp cv b d Pi sv rs
    unfolding emitted_sys_def Let_def
    by blast
qed

text \<open>
  The model with two variables with \<open>x_bar\<close> as its second structural parameter, as a
  functional parameter, and undeclared.
\<close>

theorem x_bar_precedence_witness:
  "(\<exists>N2 A2 J2 cx b2. self_sys (snd (get_sys toy toy_nu default_args fresh))
       = Some (N2, A2, J2, cx, b2, - 1 / 100)) \<and>
   (\<exists>N2 A2 J2 cx b2. self_sys (snd (get_sys toy_pf toy_nu default_args fresh))
       = Some (N2, A2, J2, cx, b2, - 1 / 2)) \<and>
   (\<exists>N2 A2 J2 cx b2. self_sys (snd (get_sys toy_plain toy_nu default_args fresh))
       = Some (N2, A2, J2, cx, b2, - 1)) \<and>
   x_bar_warning \<in> set (stdout (snd (get_sys toy_plain toy_nu default_args fresh)))"
proof -
  have r1: "fst (get_sys toy toy_nu default_args fresh) = Return ()"
    by code_simp
  have r2: "fst (get_sys toy_pf toy_nu default_args fresh) = Return ()"
    by code_simp
  have r3: "fst (get_sys toy_plain toy_nu default_args fresh) = Return ()"
    by code_simp
  have e1: "get_sys toy toy_nu default_args fresh = (Return (), snd (get_sys toy toy_nu default_args fresh))"
    using r1 by (metis prod.collapse)
  have e2: "get_sys toy_pf toy_nu default_args fresh
      = (Return (), snd (get_sys toy_pf toy_nu default_args fresh))"
    using r2 by (metis prod.collapse)
  have e3: "get_sys toy_plain toy_nu default_args fresh
      = (Return (), snd (get_sys toy_plain toy_nu default_args fresh))"
    using r3 by (metis prod.collapse)
  have p1: "''x_bar'' \<in> set (parameters toy)" "index_of (parameters toy) ''x_bar'' = Some 1"
    "the_par toy default_args ! 1 = - 1 / 100"
    by (simp_all add: toy_def the_par_def default_args_def)
  have p2: "''x_bar'' \<notin> set (parameters toy_pf) \<and> ''x_bar'' \<in> set (fst (parafunc toy_pf))"
    "index_of (fst (parafunc toy_pf)) ''x_bar'' = Some 1"
    "snd (parafunc toy_pf) (the_par toy_pf default_args) ! 1 = - 1 / 2"
    by (simp_all add: toy_pf_def toy_def the_par_def default_args_def)
  have p3: "''x_bar'' \<notin> set (parameters toy_plain) \<and> ''x_bar'' \<notin> set (fst (parafunc toy_plain))"
    by (simp add: toy_plain_def toy_def)
  have a: "\<exists>N2 A2 J2 cx b2. self_sys (snd (get_sys toy toy_nu default_args fresh))
       = Some (N2, A2, J2, cx, b2, - 1 / 100)"
    using x_bar_precedence[OF e1] p1 by fastforce
  have b: "\<exists>N2 A2 J2 cx b2. self_sys (snd (get_sys toy_pf toy_nu default_args fresh))
       = Some (N2, A2, J2, cx, b2, - 1 / 2)"
    using x_bar_precedence[OF e2] p2 by fastforce
  have c: "(\<exists>N2 A2 J2 cx b2. self_sys (snd (get_sys toy_plain toy_nu default_args fresh))
       = Some (N2, A2, J2, cx, b2, - 1)) \<and>
     x_bar_warning \<in> set (stdout (snd (get_sys toy_plain toy_nu default_args fresh)))"
    using x_bar_precedence[OF e3] p3 by fastforce
  show ?thesis using a b c by blast
qed

subsection \<open>Compiling twice\<close>

lemma settings_again:
  assumes "settings a s = (rs, it, l, k, s1)"
    and "lks t = Some (l, k)" "fdict_reduce_sys t = rs" "fdict_ignore_tests t = it"
  shows "\<exists>t1. settings a t = (rs, it, l, k, t1) \<and> self_P t1 = self_P t"
  using assms
  by (auto simp: settings_def Let_def split: option.splits if_splits prod.splits)

lemma settings_frame:
  assumes "settings a s = (rs, it, l, k, s1)"
  shows "lks s1 = Some (l, k)" "fdict_reduce_sys s1 = rs" "fdict_ignore_tests s1 = it"
    "self_P s1 = self_P s"
  using assms
  by (auto simp: settings_def Let_def split: option.splits if_splits prod.splits)

lemma count_true_le: "count_true m \<le> length m"
  by (simp add: count_true_def)

lemma length_msk: "length xs = length m \<Longrightarrow> length (msk xs m) = count_true m"
proof (induction xs arbitrary: m)
  case Nil
  then show ?case by (simp add: msk_def count_true_def)
next
  case (Cons x xs)
  then obtain b m' where m: "m = b # m'" by (cases m) auto
  with Cons have "length (msk xs m') = count_true m'" by simp
  then show ?case by (simp add: m msk_def count_true_def)
qed

lemma shape_zeros: "nrows (zeros n n) = n" "ncols (zeros n n) = n"
  by (cases n; simp add: nrows_def ncols_def zeros_def)+

lemma reconcile_P_again:
  assumes "reconcile_P om sm Pm = (Inr P', msgs)" and "length sm = length om"
  shows "\<exists>P'' msgs'. reconcile_P om sm P' = (Inr P'', msgs')"
proof -
  let ?cnt = "count_true (inv_msk sm)"
  have le: "?cnt \<le> length sm"
    using count_true_le[of "inv_msk sm"] by (simp add: inv_msk_def)
  consider (grow) "nrows Pm < ?cnt" | (shrink) "?cnt < nrows Pm" | (same) "nrows Pm = ?cnt"
    by linarith
  then show ?thesis
  proof cases
    case grow
    then have P': "P' = zeros (length om) (length om)"
      using assms(1) by (auto simp: reconcile_P_def Let_def split: if_splits)
    show ?thesis
      unfolding P' reconcile_P_def using le assms(2)
      by (auto simp: shape_zeros Let_def)
  next
    case shrink
    then have c: "length sm = nrows Pm" and P': "P' = msk_cols (msk Pm (inv_msk sm)) (inv_msk sm)"
      using assms(1) by (auto simp: reconcile_P_def Let_def split: if_splits)
    have "nrows P' = ?cnt"
      unfolding P' nrows_def msk_cols_def using c
      by (simp add: length_msk inv_msk_def nrows_def)
    then show ?thesis
      by (simp add: reconcile_P_def)
  next
    case same
    then have "P' = Pm"
      using assms(1) by (auto simp: reconcile_P_def Let_def split: if_splits)
    with same show ?thesis
      by (simp add: reconcile_P_def)
  qed
qed

lemma reconcile_again:
  assumes "reconcile om sm s = (Return (), s6)" and "self_P t = self_P s6" and "length sm = length om"
  shows "\<exists>t6. reconcile om sm t = (Return (), t6)"
proof (cases "self_P s")
  case None
  then have "self_P s6 = None"
    using assms(1) by (auto simp: reconcile_def)
  then show ?thesis
    using assms(2) by (simp add: reconcile_def)
next
  case (Some Pm)
  then obtain P' msgs where r: "reconcile_P om sm Pm = (Inr P', msgs)" and "self_P s6 = Some P'"
    using assms(1) by (auto simp: reconcile_def split: prod.splits sum.splits)
  then have t: "self_P t = Some P'"
    using assms(2) by simp
  from reconcile_P_again[OF r assms(3)] obtain P'' msgs' where
    "reconcile_P om sm P' = (Inr P'', msgs')" by blast
  then show ?thesis
    using t by (simp add: reconcile_def)
qed

lemma length_applied_mask: "length (applied_mask rs n xs) = length xs"
  by (auto simp: applied_mask_def set_tail_n_def tail_n_def)

lemma length_tail_applied: "length (tail_n n (applied_mask rs n xs)) = length (tail_n n xs)"
  using length_applied_mask[of rs n xs] by (auto simp: tail_n_def)

lemma reconcile_fields:
  assumes "reconcile om sm s = (out, s6)"
  shows "self_out_msk s6 = self_out_msk s" "lks s6 = lks s" "fdict_reduce_sys s6 = fdict_reduce_sys s"
    "fdict_ignore_tests s6 = fdict_ignore_tests s"
  using assms
  by (auto simp: reconcile_def split: option.splits prod.splits sum.splits)

lemma emit_again:
  assumes "emit m nu a rs it l k par ppar b OME d s = (Return (), s')" and "self_P t = self_P s'"
  shows "\<exists>t'. emit m nu a rs it l k par ppar b OME d t = (Return (), t') \<and>
              self_sys t' = self_sys s' \<and> self_out_msk t' = self_out_msk s'"
proof -
  let ?dv = "length (variables m)"
  let ?det = "if 1 < a_verbose a
              then [ljust15 ''[get_sys:]'' @ '' determinant of `P` is '' @ str_det nu (d_P2 d) @ ''.'']
              else []"
  from assms(1) obtain x_bar warn v s6 pc where
    xb: "resolve_x_bar m par = Inr (x_bar, warn)"
    and sv: "solve nu b d x_bar = Inr v"
    and rc: "reconcile (tail_n ?dv (reduction_mask nu v (b_b2 b) (ZZ m ppar) ?dv))
       (tail_n ?dv (applied_mask rs ?dv (reduction_mask nu v (b_b2 b) (ZZ m ppar) ?dv)))
       (s\<lparr>stdout := stdout s @ ?det @ warn,
           self_out_msk := Some (tail_n ?dv (reduction_mask nu v (b_b2 b) (ZZ m ppar) ?dv))\<rparr>)
         = (Return (), s6)"
    and pc: "preprocess nu (emitted_sys v (hstack (eye (b_dim_x b)) (mat_neg OME)) (b_b2 b) x_bar
        (applied_mask rs ?dv (reduction_mask nu v (b_b2 b) (ZZ m ppar) ?dv))) l k = Inr pc"
    and ex: "truthy it \<or> explosive nu pc = 0"
    and s': "s' = (assign m ppar b (hstack (eye (b_dim_x b)) (mat_neg OME)) v x_bar
             (applied_mask rs ?dv (reduction_mask nu v (b_b2 b) (ZZ m ppar) ?dv))
             (tail_n ?dv (applied_mask rs ?dv (reduction_mask nu v (b_b2 b) (ZZ m ppar) ?dv)))
             s6)\<lparr>stdout := stdout s6 @ (if 0 < a_verbose a then [timing_msg] else []),
                   precalc_mat := Some pc\<rparr>"
    by (rule emit_returns)
  let ?om = "tail_n ?dv (reduction_mask nu v (b_b2 b) (ZZ m ppar) ?dv)"
  let ?out = "applied_mask rs ?dv (reduction_mask nu v (b_b2 b) (ZZ m ppar) ?dv)"
  let ?sm = "tail_n ?dv ?out"
  let ?t5 = "t\<lparr>stdout := stdout t @ ?det @ warn, self_out_msk := Some ?om\<rparr>"
  have P6: "self_P s' = self_P s6"
    unfolding s' by (simp add: assign_def Let_def)
  have om6: "self_out_msk s' = Some ?om"
    unfolding s' using reconcile_fields(1)[OF rc]
    by (simp add: assign_def Let_def)
  have "self_P ?t5 = self_P s6"
    using assms(2) P6 by simp
  from reconcile_again[OF rc this length_tail_applied] obtain t6 where
    t6: "reconcile ?om ?sm ?t5 = (Return (), t6)" by blast
  have omt: "self_out_msk t6 = Some ?om"
    using reconcile_fields(1)[OF t6] by simp
  let ?t' = "(assign m ppar b (hstack (eye (b_dim_x b)) (mat_neg OME)) v x_bar ?out ?sm t6)
               \<lparr>stdout := stdout t6 @ (if 0 < a_verbose a then [timing_msg] else []),
                precalc_mat := Some pc\<rparr>"
  have "emit m nu a rs it l k par ppar b OME d t = (Return (), ?t')"
    using xb sv t6 pc ex
    by (auto simp: emit_def Let_def run_preprocess_def stability_test_def assign_def)
  moreover have "self_sys ?t' = self_sys s'"
    unfolding s' by (simp add: assign_def Let_def)
  moreover have "self_out_msk ?t' = self_out_msk s'"
    unfolding om6 using omt by (simp add: assign_def Let_def)
  ultimately show ?thesis by blast
qed

lemma emit_fields:
  assumes "emit m nu a rs it l k par ppar b OME d s = (Return (), s')"
  shows "lks s' = lks s" "fdict_reduce_sys s' = fdict_reduce_sys s"
    "fdict_ignore_tests s' = fdict_ignore_tests s"
proof -
  from assms obtain x_bar warn v s6 pc where
    rc: "reconcile (tail_n (length (variables m)) (reduction_mask nu v (b_b2 b) (ZZ m ppar) (length (variables m))))
       (tail_n (length (variables m))
          (applied_mask rs (length (variables m))
             (reduction_mask nu v (b_b2 b) (ZZ m ppar) (length (variables m)))))
       (s\<lparr>stdout := stdout s @
             (if 1 < a_verbose a
              then [ljust15 ''[get_sys:]'' @ '' determinant of `P` is '' @ str_det nu (d_P2 d) @ ''.'']
              else []) @ warn,
           self_out_msk := Some (tail_n (length (variables m))
              (reduction_mask nu v (b_b2 b) (ZZ m ppar) (length (variables m))))\<rparr>) = (Return (), s6)"
    and s': "s' = (assign m ppar b (hstack (eye (b_dim_x b)) (mat_neg OME)) v x_bar
             (applied_mask rs (length (variables m))
                (reduction_mask nu v (b_b2 b) (ZZ m ppar) (length (variables m))))
             (tail_n (length (variables m))
                (applied_mask rs (length (variables m))
                   (reduction_mask nu v (b_b2 b) (ZZ m ppar) (length (variables m)))))
             s6)\<lparr>stdout := stdout s6 @ (if 0 < a_verbose a then [timing_msg] else []),
                   precalc_mat := Some pc\<rparr>"
    by (rule emit_returns)
  show "lks s' = lks s" "fdict_reduce_sys s' = fdict_reduce_sys s"
    "fdict_ignore_tests s' = fdict_ignore_tests s"
    unfolding s' using reconcile_fields(2-4)[OF rc] by (simp_all add: assign_def Let_def)
qed

text \<open>
  C7. When \<^verbatim>\<open>get_sys\<close> has returned, a second call on the same model object with the same
  arguments (parameter vector, \<^verbatim>\<open>reduce_sys\<close>, \<^verbatim>\<open>l_max\<close>, \<^verbatim>\<open>k_max\<close> and the others) returns as well,
  and emits the same system \<^verbatim>\<open>(N2, A2, J2, cx, b2, x_bar)\<close> and the same reduction mask. The
  imported routines are functions of their arguments; what the first call stored (the
  settings, a resized \<^verbatim>\<open>P\<close>) does not change what the second computes.
\<close>

theorem get_sys_deterministic:
  assumes "get_sys m nu a s = (Return (), s1)"
  shows "\<exists>s2. get_sys m nu a s1 = (Return (), s2) \<and>
              self_sys s2 = self_sys s1 \<and> self_out_msk s2 = self_out_msk s1"
proof -
  from assms obtain rs it l k t1 ppar cv b OME d where
    st: "settings a s = (rs, it, l, k, t1)"
    and pp: "parse_par m (the_par m a) = Inr ppar"
    and cv: "const_var m = Some cv"
    and b: "build m nu cv ppar = Inr b"
    and rb: "re_bk nu (b_M1 b) (b_P1 b) (b_dim_x b) = Inr OME"
    and d: "desingularize nu (a_tol a) b = Inr d"
    and fd: "\<not> future_dependence nu b d"
    and em: "emit m nu a rs it l k (the_par m a) ppar b OME d
       (t1\<lparr>self_par := Some (the_par m a), self_ppar := Some ppar\<rparr>) = (Return (), s1)"
    by (rule get_sys_reaches_emit)
  have "lks s1 = Some (l, k)" "fdict_reduce_sys s1 = rs" "fdict_ignore_tests s1 = it"
    using emit_fields[OF em] settings_frame[OF st] by simp_all
  from settings_again[OF st this] obtain u1 where
    st2: "settings a s1 = (rs, it, l, k, u1)" and Pu: "self_P u1 = self_P s1" by blast
  have "self_P (u1\<lparr>self_par := Some (the_par m a), self_ppar := Some ppar\<rparr>) = self_P s1"
    using Pu by simp
  from emit_again[OF em this] obtain s2 where
    em2: "emit m nu a rs it l k (the_par m a) ppar b OME d
       (u1\<lparr>self_par := Some (the_par m a), self_ppar := Some ppar\<rparr>) = (Return (), s2)"
    and eq: "self_sys s2 = self_sys s1" "self_out_msk s2 = self_out_msk s1"
    by blast
  have "get_sys m nu a s1 = (Return (), s2)"
    unfolding get_sys_def st2 using pp cv b rb d fd em2
    by (simp add: the_par_def Let_def)
  with eq show ?thesis by blast
qed

text \<open>Two compilations of the model with two variables, with a cached \<open>P\<close> that the first one shrinks.\<close>

theorem get_sys_deterministic_witness:
  "\<exists>s2. get_sys toy toy_nu (default_args\<lparr>a_reduce_sys := Some True\<rparr>)
          (snd (get_sys toy toy_nu (default_args\<lparr>a_reduce_sys := Some True\<rparr>) (fresh\<lparr>self_P := Some [[5, 1], [1, 5]]\<rparr>)))
        = (Return (), s2) \<and>
      self_sys s2 = Some ([[0, - 1], [0, 0]], [[0, - 1], [1, 5 / 2]], [[1, 2]], [0, - (1 / 100)], [1, 5 / 2],
                          - (1 / 100)) \<and>
      self_out_msk s2 = Some [False, True]"
proof -
  let ?a = "default_args\<lparr>a_reduce_sys := Some True\<rparr>"
  let ?s = "fresh\<lparr>self_P := Some [[5, 1], [1, 5]]\<rparr>"
  have r: "fst (get_sys toy toy_nu ?a ?s) = Return ()"
    by code_simp
  have e: "get_sys toy toy_nu ?a ?s = (Return (), snd (get_sys toy toy_nu ?a ?s))"
    using r by (metis prod.collapse)
  have v: "self_sys (snd (get_sys toy toy_nu ?a ?s))
      = Some ([[0, - 1], [0, 0]], [[0, - 1], [1, 5 / 2]], [[1, 2]], [0, - (1 / 100)], [1, 5 / 2], - (1 / 100))"
    "self_out_msk (snd (get_sys toy toy_nu ?a ?s)) = Some [False, True]"
    by code_simp+
  show ?thesis
    using get_sys_deterministic[OF e] v by simp
qed

subsection \<open>Setting parameters\<close>

lemma scatter_same:
  "list_all (\<lambda>i. i < length xs) idx \<Longrightarrow> scatter xs idx (map (\<lambda>i. xs ! i) idx) = xs"
  by (induction idx) auto

lemma finish_state: "snd (finish m co g dmy pars c s) = s"
  by (auto simp: finish_def split: pyval.splits sum.splits option.splits)

lemma get_par_current:
  assumes "self_par s = Some p" and "g_npar g = None" and "g_full g"
    and "list_all (\<lambda>i. i < length p) (prior_arg m)"
  shows "get_par m nu co g DNone s = (Return (Vector p), s)"
  using assms
  by (simp add: get_par_def get_par_body_def prelude_par_set take_idx_def finish_def sampling_token_def
      as_vec_def put_idx_def scatter_same)

lemma emit_par:
  assumes "emit m nu a rs it l k par ppar b OME d s = (Return (), s')"
  shows "self_par s' = self_par s" "self_ppar s' = self_ppar s" "self_filter s' = self_filter s"
proof -
  from assms obtain x_bar warn v s6 pc where
    rc: "reconcile (tail_n (length (variables m)) (reduction_mask nu v (b_b2 b) (ZZ m ppar) (length (variables m))))
       (tail_n (length (variables m))
          (applied_mask rs (length (variables m))
             (reduction_mask nu v (b_b2 b) (ZZ m ppar) (length (variables m)))))
       (s\<lparr>stdout := stdout s @
             (if 1 < a_verbose a
              then [ljust15 ''[get_sys:]'' @ '' determinant of `P` is '' @ str_det nu (d_P2 d) @ ''.'']
              else []) @ warn,
           self_out_msk := Some (tail_n (length (variables m))
              (reduction_mask nu v (b_b2 b) (ZZ m ppar) (length (variables m))))\<rparr>) = (Return (), s6)"
    and s': "s' = (assign m ppar b (hstack (eye (b_dim_x b)) (mat_neg OME)) v x_bar
             (applied_mask rs (length (variables m))
                (reduction_mask nu v (b_b2 b) (ZZ m ppar) (length (variables m))))
             (tail_n (length (variables m))
                (applied_mask rs (length (variables m))
                   (reduction_mask nu v (b_b2 b) (ZZ m ppar) (length (variables m)))))
             s6)\<lparr>stdout := stdout s6 @ (if 0 < a_verbose a then [timing_msg] else []),
                   precalc_mat := Some pc\<rparr>"
    by (rule emit_returns)
  have "self_par s6 = self_par s" "self_ppar s6 = self_ppar s" "self_filter s6 = self_filter s"
    using rc by (auto simp: reconcile_def split: option.splits prod.splits sum.splits)
  then show "self_par s' = self_par s" "self_ppar s' = self_ppar s" "self_filter s' = self_filter s"
    unfolding s' by (simp_all add: assign_def Let_def)
qed

lemma get_sys_par:
  assumes "get_sys m nu a s = (Return (), s')"
  shows "self_par s' = Some (the_par m a)" "self_filter s' = self_filter s"
proof -
  from assms obtain rs it l k s1 ppar cv b OME d where
    st: "settings a s = (rs, it, l, k, s1)"
    and em: "emit m nu a rs it l k (the_par m a) ppar b OME d
       (s1\<lparr>self_par := Some (the_par m a), self_ppar := Some ppar\<rparr>) = (Return (), s')"
    by (rule get_sys_reaches_emit)
  have "self_filter s1 = self_filter s"
    using st by (auto simp: settings_def Let_def split: option.splits if_splits prod.splits)
  then show "self_par s' = Some (the_par m a)" "self_filter s' = self_filter s"
    using emit_par[OF em] by simp_all
qed

lemma update_filter_par:
  assumes "update_filter m s = (out, s')"
  shows "self_par s' = self_par s"
  using assms
  by (auto simp: update_filter_def Let_def split: option.splits if_splits)

lemma recompile_returns:
  assumes "recompile m nu co sa vec s = (Return r, s')"
  obtains s1 s2 where
    "get_sys m nu ((sp_kw sa)\<lparr>a_par := Some vec, a_verbose := verbose_nat (sp_verbose sa)\<rparr>) s = (Return (), s1)"
    "update_filter m s1 = (Return (), s2)"
    "get_par m nu co default_par_args DNone
       (s2\<lparr>stdout := stdout s2 @
            (if sp_verbose sa
             then (case self_par s2 of
                     None \<Rightarrow> []
                   | Some p \<Rightarrow>
                       [ljust15 ''[set_par:]'' @ '' Parameter(s):'' @ [CHR 0x0A]
                        @ str_dicts co (parameters m) p (fst (parafunc m)) (snd (parafunc m) p)])
             else [])\<rparr>) = (Return r, s')"
  using assms
  by (auto simp: recompile_def Let_def split: prod.splits outcome.splits)

text \<open>
  C6. Let \<open>v\<close> be a vector of the length of \<^verbatim>\<open>par_fix\<close>, and the estimated indices lie
  inside \<^verbatim>\<open>par_fix\<close>. When \<^verbatim>\<open>set_par(v)\<close> returns (the compilation has succeeded),
  \<^verbatim>\<open>get_par(None)\<close> on the resulting model object returns a vector with the entries of \<open>v\<close> at
  the estimated indices, in fact \<open>v\<close> itself, and leaves the model object as it is.
\<close>

theorem set_get_round_trip:
  assumes "length v = length (par_fix m)"
    and "list_all (\<lambda>i. i < length (par_fix m)) (prior_arg m)"
    and "sp_setpar sa = None"
    and "set_par m nu co sa (DArr v) s h = ((Return r, s1), h1)"
  shows "\<exists>w. get_par m nu co default_par_args DNone s1 = (Return (Vector w), s1) \<and>
             take_idx w (prior_arg m) = take_idx v (prior_arg m) \<and>
             take_idx v (prior_arg m) = Some (map (\<lambda>i. v ! i) (prior_arg m)) \<and> w = v"
proof -
  have rc: "recompile m nu co sa v s = (Return r, s1)"
    using assms(1,3,4) by (simp add: set_par_def)
  then obtain t1 t2 where
    gs: "get_sys m nu ((sp_kw sa)\<lparr>a_par := Some v, a_verbose := verbose_nat (sp_verbose sa)\<rparr>) s = (Return (), t1)"
    and uf: "update_filter m t1 = (Return (), t2)"
    and gp: "get_par m nu co default_par_args DNone
       (t2\<lparr>stdout := stdout t2 @
            (if sp_verbose sa
             then (case self_par t2 of
                     None \<Rightarrow> []
                   | Some p \<Rightarrow>
                       [ljust15 ''[set_par:]'' @ '' Parameter(s):'' @ [CHR 0x0A]
                        @ str_dicts co (parameters m) p (fst (parafunc m)) (snd (parafunc m) p)])
             else [])\<rparr>) = (Return r, s1)"
    by (rule recompile_returns)
  let ?t3 = "t2\<lparr>stdout := stdout t2 @
            (if sp_verbose sa
             then (case self_par t2 of
                     None \<Rightarrow> []
                   | Some p \<Rightarrow>
                       [ljust15 ''[set_par:]'' @ '' Parameter(s):'' @ [CHR 0x0A]
                        @ str_dicts co (parameters m) p (fst (parafunc m)) (snd (parafunc m) p)])
             else [])\<rparr>"
  have "self_par t1 = Some v"
    using get_sys_par(1)[OF gs] by (simp add: the_par_def)
  then have p3: "self_par ?t3 = Some v"
    using update_filter_par[OF uf] by simp
  have valid: "list_all (\<lambda>i. i < length v) (prior_arg m)"
    using assms(1,2) by simp
  have d: "g_npar default_par_args = None" "g_full default_par_args"
    by (simp_all add: default_par_args_def)
  have "get_par m nu co default_par_args DNone ?t3 = (Return (Vector v), ?t3)"
    using get_par_current[OF p3 d valid] .
  with gp have s1: "s1 = ?t3" and "r = Vector v" by simp_all
  have "self_par s1 = Some v"
    using p3 s1 by simp
  from get_par_current[OF this d valid]
  have "get_par m nu co default_par_args DNone s1 = (Return (Vector v), s1)" .
  then show ?thesis
    using valid by (simp add: take_idx_def)
qed

text \<open>Setting both parameters of the model with two variables and reading them back.\<close>

theorem set_get_round_trip_witness:
  "get_par toy toy_nu toy_co default_par_args DNone
     (snd (fst (set_par toy toy_nu toy_co
        \<lparr>sp_setpar = None, sp_npar = None, sp_verbose = False, sp_kw = default_args\<rparr>
        (DArr [1 / 2, - 1 / 100]) fresh [])))
   = (Return (Vector [1 / 2, - 1 / 100]),
      snd (fst (set_par toy toy_nu toy_co
        \<lparr>sp_setpar = None, sp_npar = None, sp_verbose = False, sp_kw = default_args\<rparr>
        (DArr [1 / 2, - 1 / 100]) fresh [])))"
proof -
  let ?sa = "\<lparr>sp_setpar = None, sp_npar = None, sp_verbose = False, sp_kw = default_args\<rparr>"
  let ?r = "set_par toy toy_nu toy_co ?sa (DArr [1 / 2, - 1 / 100]) fresh []"
  have 1: "length [1 / 2, - 1 / 100 :: real] = length (par_fix toy)"
    by (simp add: toy_def)
  have 2: "list_all (\<lambda>i. i < length (par_fix toy)) (prior_arg toy)"
    by (simp add: toy_def)
  have 3: "sp_setpar ?sa = None"
    by simp
  have "fst (fst ?r) = Return (Vector [1 / 2, - 1 / 100])"
    by code_simp
  then have 4: "?r = ((Return (Vector [1 / 2, - 1 / 100]), snd (fst ?r)), snd ?r)"
    by (metis prod.collapse)
  show ?thesis
    using set_get_round_trip[OF 1 2 3 4] by simp
qed

lemma named_quiet:
  assumes "t = ''mode'' \<or> t = ''init''"
  shows "self_filter (snd (named_par m co g t s)) = self_filter s \<and>
         self_par (snd (named_par m co g t s)) \<noteq> None"
  using assms
  by (auto simp: named_par_def Let_def split: option.splits prod.splits)

lemma leaf_quiet:
  assumes "self_par s \<noteq> None" and "g_npar g = None" and "t = ''mode'' \<or> t = ''init''"
  shows "self_filter (snd (get_par_leaf m nu co g (DStr t) s)) = self_filter s \<and>
         self_par (snd (get_par_leaf m nu co g (DStr t) s)) \<noteq> None"
proof -
  from assms(1) obtain p where p: "self_par s = Some p" by auto
  have c: "t \<noteq> ''cov_mat''" "t \<noteq> ''best''"
    using assms(3) by auto
  have n: "self_filter (snd (named_par m co g t s)) = self_filter s \<and>
         self_par (snd (named_par m co g t s)) \<noteq> None"
    using named_quiet[OF assms(3)] .
  show ?thesis
    unfolding get_par_leaf_def get_par_body_def prelude_par_set[OF p assms(2)]
    using c n p
    by (cases "named_par m co g t s"; cases "fst (named_par m co g t s)")
       (auto simp: Let_def finish_state split: option.splits)
qed

lemma inner_quiet:
  assumes "self_par s \<noteq> None" and "g_npar g = None"
  shows "self_filter (snd (get_par_inner m nu co g (DStr ''best'') s)) = self_filter s \<and>
         self_par (snd (get_par_inner m nu co g (DStr ''best'') s)) \<noteq> None"
proof -
  from assms(1) obtain p where p: "self_par s = Some p" by auto
  have g: "g_npar (rec_args g) = None"
    by (simp add: rec_args_def)
  obtain o1 s2 where r1: "get_par_leaf m nu co (rec_args g) (DStr ''mode'') s = (o1, s2)"
    by (cases "get_par_leaf m nu co (rec_args g) (DStr ''mode'') s")
  have q1: "self_filter s2 = self_filter s" "self_par s2 \<noteq> None"
    using leaf_quiet[OF assms(1) g, of "''mode''" m nu co] r1 by simp_all
  obtain o2 s3 where r2: "get_par_leaf m nu co (rec_args g) (DStr ''init'') s2 = (o2, s3)"
    by (cases "get_par_leaf m nu co (rec_args g) (DStr ''init'') s2")
  have q2: "self_filter s3 = self_filter s" "self_par s3 \<noteq> None"
    using leaf_quiet[OF q1(2) g, of "''init''" m nu co] r2 q1(1) by simp_all
  show ?thesis
    unfolding get_par_inner_def get_par_body_def prelude_par_set[OF p assms(2)]
    using r1 r2 q1 q2 p
    by (cases o1; cases o2) (auto simp: Let_def finish_state split: option.splits)
qed

lemma get_par_keeps_filter:
  assumes "self_par s \<noteq> None"
  shows "self_filter (snd (get_par m nu co default_par_args DNone s)) = self_filter s"
proof -
  from assms obtain p where p: "self_par s = Some p" by auto
  have g: "g_npar default_par_args = None" "g_npar (rec_args default_par_args) = None"
    by (simp_all add: default_par_args_def rec_args_def)
  obtain o1 s2 where r1: "get_par_inner m nu co (rec_args default_par_args) (DStr ''best'') s = (o1, s2)"
    by (cases "get_par_inner m nu co (rec_args default_par_args) (DStr ''best'') s")
  have q1: "self_filter s2 = self_filter s"
    using inner_quiet[OF assms g(2), of m nu co] r1 by simp
  show ?thesis
    unfolding get_par_def get_par_body_def prelude_par_set[OF p g(1)]
    using r1 q1
    by (cases o1) (auto simp: Let_def finish_state split: option.splits)
qed

text \<open>
  C5. Let \<^verbatim>\<open>set_par\<close> be called without \<^verbatim>\<open>npar\<close> and return: with the name of a structural
  parameter and a value, the vector being the current one with that entry replaced; with a
  vector of full length; or with a vector of the length of the estimated subset, written
  into the current vector at the estimated indices. Then \<^verbatim>\<open>get_sys\<close> has run on that vector
  and returned, and a filter attached to the model holds the shock covariance \<^verbatim>\<open>QQ\<close> of the
  newly parsed parameters and a process noise recomputed from the new compilation:
  \<^verbatim>\<open>CO @ CO.T\<close> with \<^verbatim>\<open>CO = SIG @ QQ\<close> for a Kalman filter, \<^verbatim>\<open>QQ @ QQ\<close> for another (for a
  particle filter \<^verbatim>\<open>set_par\<close> raises and does not return).
\<close>

theorem set_par_recompiles:
  assumes "set_par m nu co sa dmy s h = ((Return r, s'), h')"
    and "sp_npar sa = None"
    and "(dmy = DStr t \<and> sp_setpar sa = Some x \<and> t \<in> set (parameters m) \<and>
            index_of (parameters m) t = Some j \<and> vec = (cur_par m s)[j := x])
       \<or> (dmy = DArr d \<and> sp_setpar sa = None \<and> length d = length (par_fix m) \<and> vec = d)
       \<or> (dmy = DArr d \<and> sp_setpar sa = None \<and> length d \<noteq> length (par_fix m) \<and>
            length d = length (prior_arg m) \<and> vec = scatter (cur_par m s) (prior_arg m) d)"
  shows "\<exists>s1. get_sys m nu ((sp_kw sa)\<lparr>a_par := Some vec, a_verbose := verbose_nat (sp_verbose sa)\<rparr>) s
                = (Return (), s1) \<and>
              self_par s1 = Some vec \<and>
              (case self_filter s1 of
                 None \<Rightarrow> self_filter s' = None
               | Some f \<Rightarrow>
                   \<exists>pp f'. self_ppar s1 = Some pp \<and> self_filter s' = Some f' \<and>
                     f_name f' = f_name f \<and> eps_cov f' = QQ m pp \<and>
                     (if f_name f = ''KalmanFilter''
                      then \<exists>SIG. self_SIG s1 = Some SIG \<and>
                             f_Q f' = matmul (matmul SIG (QQ m pp)) (transp (matmul SIG (QQ m pp)))
                      else f_Q f' = matmul (QQ m pp) (QQ m pp)))"
proof -
  have rc: "recompile m nu co sa vec s = (Return r, s')"
    using assms
    by (auto simp: set_par_def cur_par_def put_idx_def Let_def split: option.splits if_splits sum.splits)
  then obtain s1 s2 where
    gs: "get_sys m nu ((sp_kw sa)\<lparr>a_par := Some vec, a_verbose := verbose_nat (sp_verbose sa)\<rparr>) s
           = (Return (), s1)"
    and uf: "update_filter m s1 = (Return (), s2)"
    and gp: "get_par m nu co default_par_args DNone
       (s2\<lparr>stdout := stdout s2 @
            (if sp_verbose sa
             then (case self_par s2 of
                     None \<Rightarrow> []
                   | Some p \<Rightarrow>
                       [ljust15 ''[set_par:]'' @ '' Parameter(s):'' @ [CHR 0x0A]
                        @ str_dicts co (parameters m) p (fst (parafunc m)) (snd (parafunc m) p)])
             else [])\<rparr>) = (Return r, s')"
    by (rule recompile_returns)
  have p1: "self_par s1 = Some vec"
    using get_sys_par(1)[OF gs] by (simp add: the_par_def)
  then have "self_par (s2\<lparr>stdout := stdout s2 @
            (if sp_verbose sa
             then (case self_par s2 of
                     None \<Rightarrow> []
                   | Some p \<Rightarrow>
                       [ljust15 ''[set_par:]'' @ '' Parameter(s):'' @ [CHR 0x0A]
                        @ str_dicts co (parameters m) p (fst (parafunc m)) (snd (parafunc m) p)])
             else [])\<rparr>) \<noteq> None"
    using update_filter_par[OF uf] by simp
  from get_par_keeps_filter[OF this, of m nu co] gp
  have f': "self_filter s' = self_filter s2"
    by simp
  have "case self_filter s1 of
          None \<Rightarrow> self_filter s2 = None
        | Some f \<Rightarrow>
            \<exists>pp f'. self_ppar s1 = Some pp \<and> self_filter s2 = Some f' \<and>
              f_name f' = f_name f \<and> eps_cov f' = QQ m pp \<and>
              (if f_name f = ''KalmanFilter''
               then \<exists>SIG. self_SIG s1 = Some SIG \<and>
                      f_Q f' = matmul (matmul SIG (QQ m pp)) (transp (matmul SIG (QQ m pp)))
               else f_Q f' = matmul (QQ m pp) (QQ m pp))"
    using uf
    by (auto simp: update_filter_def Let_def split: option.splits if_splits)
  then show ?thesis
    using gs p1 unfolding f' by blast
qed

text \<open>Setting \<open>beta\<close> by name on the model with two variables, a Kalman filter attached.\<close>

theorem set_par_recompiles_witness:
  "self_filter (snd (fst (set_par toy toy_nu toy_co
      \<lparr>sp_setpar = Some (1 / 2), sp_npar = None, sp_verbose = False, sp_kw = default_args\<rparr>
      (DStr ''beta'') (fresh\<lparr>self_filter := Some kalman\<rparr>) [])))
   = Some \<lparr>f_name = ''KalmanFilter'', eps_cov = [[1 / 10]], f_Q = [[0, 0], [0, 0]]\<rparr>"
proof -
  let ?sa = "\<lparr>sp_setpar = Some (1 / 2), sp_npar = None, sp_verbose = False, sp_kw = default_args\<rparr>"
  let ?s = "fresh\<lparr>self_filter := Some kalman\<rparr>"
  let ?r = "set_par toy toy_nu toy_co ?sa (DStr ''beta'') ?s []"
  let ?a = "(sp_kw ?sa)\<lparr>a_par := Some [1 / 2, - 1 / 100], a_verbose := verbose_nat (sp_verbose ?sa)\<rparr>"
  have "fst (fst ?r) = Return (Vector [1 / 2, - 1 / 100])"
    by code_simp
  then have 1: "?r = ((Return (Vector [1 / 2, - 1 / 100]), snd (fst ?r)), snd ?r)"
    by (metis prod.collapse)
  have 2: "sp_npar ?sa = None"
    by simp
  have 3: "(DStr ''beta'' = DStr ''beta'' \<and> sp_setpar ?sa = Some (1 / 2) \<and> ''beta'' \<in> set (parameters toy) \<and>
            index_of (parameters toy) ''beta'' = Some 0 \<and> [1 / 2, - 1 / 100] = (cur_par toy ?s)[0 := 1 / 2])
       \<or> (DStr ''beta'' = DArr [] \<and> sp_setpar ?sa = None \<and> length ([] :: vec) = length (par_fix toy)
            \<and> [1 / 2, - 1 / 100] = ([] :: vec))
       \<or> (DStr ''beta'' = DArr [] \<and> sp_setpar ?sa = None \<and> length ([] :: vec) \<noteq> length (par_fix toy) \<and>
            length ([] :: vec) = length (prior_arg toy) \<and>
            [1 / 2, - 1 / 100] = scatter (cur_par toy ?s) (prior_arg toy) [])"
    by (simp add: toy_def cur_par_def fresh_def)
  from set_par_recompiles[OF 1 2 3] obtain s1 where
    gs: "get_sys toy toy_nu ?a ?s = (Return (), s1)"
    and f: "case self_filter s1 of
                 None \<Rightarrow> self_filter (snd (fst ?r)) = None
               | Some f \<Rightarrow>
                   \<exists>pp f'. self_ppar s1 = Some pp \<and> self_filter (snd (fst ?r)) = Some f' \<and>
                     f_name f' = f_name f \<and> eps_cov f' = QQ toy pp \<and>
                     (if f_name f = ''KalmanFilter''
                      then \<exists>SIG. self_SIG s1 = Some SIG \<and>
                             f_Q f' = matmul (matmul SIG (QQ toy pp)) (transp (matmul SIG (QQ toy pp)))
                      else f_Q f' = matmul (QQ toy pp) (QQ toy pp))"
    by blast
  have s1: "s1 = snd (get_sys toy toy_nu ?a ?s)"
    using gs by simp
  have v: "self_filter s1 = Some kalman" "self_ppar s1 = Some [1 / 2, - 1 / 100]" "self_SIG s1 = Some [[0], [0]]"
    unfolding s1 by code_simp+
  from f obtain f' where
    "self_filter (snd (fst ?r)) = Some f'" "f_name f' = ''KalmanFilter''" "eps_cov f' = [[1 / 10]]"
    "f_Q f' = matmul (matmul [[0], [0]] [[1 / 10]]) (transp (matmul [[0], [0]] [[1 / 10]]))"
    unfolding v by (auto simp: kalman_def toy_def)
  moreover have "matmul (matmul [[0], [0]] [[1 / 10]]) (transp (matmul [[0], [0]] [[1 / 10]])) = [[0, 0], [0, 0]]"
    by code_simp
  ultimately show ?thesis
    by (cases f') simp
qed

subsection \<open>A cached state-transition matrix of another size\<close>

text \<open>
  C3, on the model with three variables. A compilation with \<^verbatim>\<open>reduce_sys\<close> has left two
  states and a cached \<open>P\<close> of two rows; the model is compiled again without \<^verbatim>\<open>reduce_sys\<close>,
  so that three states survive. The claim asks for the matrix of three rows that holds the
  old \<open>P\<close> at the surviving rows and columns of the mask. Line 187 assigns into a copy: the
  call returns, prints nothing, and \<open>P\<close> is the zero matrix. In \<open>tri_obs\<close> the shapes still
  disagree after the resizing (no position of the mask is true): the diagnostic is printed
  and line 187 raises ValueError, where the claim has no exception.
\<close>

theorem grown_P_is_zero:
  "fst (get_sys tri ex_nu (default_args\<lparr>a_reduce_sys := Some False\<rparr>)
          (fresh\<lparr>self_P := Some [[5, 1], [1, 5]]\<rparr>)) = Return () \<and>
   self_out_msk (snd (get_sys tri ex_nu (default_args\<lparr>a_reduce_sys := Some False\<rparr>)
          (fresh\<lparr>self_P := Some [[5, 1], [1, 5]]\<rparr>))) = Some [False, True, False] \<and>
   self_P (snd (get_sys tri ex_nu (default_args\<lparr>a_reduce_sys := Some False\<rparr>)
          (fresh\<lparr>self_P := Some [[5, 1], [1, 5]]\<rparr>))) = Some [[0, 0, 0], [0, 0, 0], [0, 0, 0]] \<and>
   stdout (snd (get_sys tri ex_nu (default_args\<lparr>a_reduce_sys := Some False\<rparr>)
          (fresh\<lparr>self_P := Some [[5, 1], [1, 5]]\<rparr>))) = [] \<and>
   fst (get_sys tri_obs ex_nu (default_args\<lparr>a_reduce_sys := Some False\<rparr>)
          (fresh\<lparr>self_P := Some [[5, 1], [1, 5]]\<rparr>))
     = Raise (ValueError ''could not broadcast input array'') \<and>
   stdout (snd (get_sys tri_obs ex_nu (default_args\<lparr>a_reduce_sys := Some False\<rparr>)
          (fresh\<lparr>self_P := Some [[5, 1], [1, 5]]\<rparr>))) = [shape_msg]"
  by (intro conjI; code_simp)

subsection \<open>The reduction mask\<close>

lemma length_fast0_cols: "length (fast0_cols nu M) = ncols M"
  by (simp add: fast0_cols_def)

lemma nth_fast0_cols: "j < ncols M \<Longrightarrow> fast0_cols nu M ! j = list_all (near0 nu) (col M j)"
  by (simp add: fast0_cols_def)

lemma length_msk_and: "length (msk_and a b) = min (length a) (length b)"
  by (simp add: msk_and_def)

lemma nth_msk_and: "i < length a \<Longrightarrow> i < length b \<Longrightarrow> msk_and a b ! i = (a ! i \<and> b ! i)"
  by (simp add: msk_and_def)

lemma reduction_mask_nth:
  assumes "ncols (v_N v) = n" "ncols (v_A v) = n" "length b2 = n" "length (v_cx v) = n"
    and "ncols ZZm = dv" "0 < dv" "dv \<le> n"
  shows "length (reduction_mask nu v b2 ZZm dv) = n"
    and "i < n \<Longrightarrow> reduction_mask nu v b2 ZZm dv ! i =
           (inert_at nu v b2 i \<and> (n - dv \<le> i \<longrightarrow> list_all (near0 nu) (col ZZm (i - (n - dv)))))"
proof -
  let ?o = "msk_and (msk_and (msk_and (fast0_cols nu (v_N v)) (fast0_cols nu (v_A v)))
                       (fast0 nu b2)) (fast0 nu (v_cx v))"
  have lo: "length ?o = n"
    using assms(1-4) by (simp add: length_msk_and length_fast0_cols fast0_def)
  have no: "?o ! j = inert_at nu v b2 j" if "j < n" for j
    using that assms(1-4)
    by (simp add: nth_msk_and length_msk_and length_fast0_cols nth_fast0_cols fast0_def inert_at_def)
  have rm: "reduction_mask nu v b2 ZZm dv
      = take (n - dv) ?o @ msk_and (drop (n - dv) ?o) (fast0_cols nu ZZm)"
    using assms(6) lo by (simp add: reduction_mask_def Let_def set_tail_n_def tail_n_def)
  show "length (reduction_mask nu v b2 ZZm dv) = n"
    unfolding rm using lo assms(5,7) by (simp add: length_msk_and length_fast0_cols)
  show "reduction_mask nu v b2 ZZm dv ! i =
           (inert_at nu v b2 i \<and> (n - dv \<le> i \<longrightarrow> list_all (near0 nu) (col ZZm (i - (n - dv)))))"
    if i: "i < n"
  proof (cases "i < n - dv")
    case True
    then show ?thesis
      unfolding rm using lo no[OF i] by (simp add: nth_append)
  next
    case False
    then have j: "i - (n - dv) < dv"
      using i assms(7) by linarith
    have "msk_and (drop (n - dv) ?o) (fast0_cols nu ZZm) ! (i - (n - dv))
        = (?o ! i \<and> list_all (near0 nu) (col ZZm (i - (n - dv))))"
      using j lo assms(5,7) False
      by (subst nth_msk_and) (simp_all add: length_fast0_cols nth_fast0_cols)
    then show ?thesis
      unfolding rm using lo no[OF i] False by (simp add: nth_append)
  qed
qed

lemma applied_mask_off:
  assumes "length xs = n" "0 < dv" "dv \<le> n" "\<not> truthy rs"
  shows "applied_mask rs dv xs = take (n - dv) xs @ replicate dv False"
    and "tail_n dv (applied_mask rs dv xs) = replicate dv False"
  using assms by (simp_all add: applied_mask_def set_tail_n_def tail_n_def)

lemma applied_mask_on: "truthy rs \<Longrightarrow> applied_mask rs dv xs = xs"
  by (simp add: applied_mask_def)

lemma msk_all: "length xs = n \<Longrightarrow> msk xs (inv_msk (replicate n False)) = xs"
proof (induction xs arbitrary: n)
  case Nil
  then show ?case by (simp add: msk_def)
next
  case (Cons x xs)
  then obtain k where "n = Suc k" "length xs = k" by (cases n) auto
  with Cons.IH[of k] show ?case by (simp add: msk_def inv_msk_def)
qed

lemma index_of_nonempty: "index_of xs x = Some i \<Longrightarrow> xs \<noteq> []"
  by (cases xs) auto

lemma build_variables:
  assumes "build m nu cv ppar = Inr b"
  shows "0 < length (variables m)"
proof -
  have "msk (variables m)
          (msk_or (inv_msk (fast0_cols nu (AA m ppar)))
             (inv_msk (fast0 nu (take (length (variables m)) (bb m ppar))))) \<noteq> []"
    using assms by (auto simp: build_def Let_def split: option.splits dest: index_of_nonempty)
  then show ?thesis
    by (auto simp: msk_def)
qed

text \<open>
  C2, amended. In a run of \<^verbatim>\<open>get_sys\<close> that returns, the local mask of line 172 ranges over
  the extended variables, and where the shapes conform its position \<open>i\<close> is true exactly when
  column \<open>i\<close> of \<open>N\<close>, column \<open>i\<close> of \<open>A\<close>, entry \<open>i\<close> of \<open>b2\<close> and entry \<open>i\<close> of \<open>cx\<close> are numerically
  zero and, for a position of the state block (the last \<^verbatim>\<open>len(vv_v)\<close> positions), the
  corresponding column of \<open>ZZ\<close> is numerically zero as well. The state block of this mask is
  what is cached as \<^verbatim>\<open>self.out_msk\<close>. The emitted system is pruned with the mask of line 177:
  with \<^verbatim>\<open>reduce_sys\<close> it is the whole mask; without, its state block is reset, so that \<^verbatim>\<open>vv\<close>
  keeps every variable and no state is pruned, and the positions of the forward-looking
  block keep their entries.
\<close>

theorem reduction_mask_and_pruning:
  assumes "get_sys m nu a s = (Return (), s')"
  shows "\<exists>ppar cv b OME d x_bar warn v.
      parse_par m (the_par m a) = Inr ppar \<and> const_var m = Some cv \<and> build m nu cv ppar = Inr b \<and>
      re_bk nu (b_M1 b) (b_P1 b) (b_dim_x b) = Inr OME \<and> desingularize nu (a_tol a) b = Inr d \<and>
      resolve_x_bar m (the_par m a) = Inr (x_bar, warn) \<and> solve nu b d x_bar = Inr v \<and>
      self_out_msk s' = Some (tail_n (length (variables m)) (full_mask m nu ppar b v)) \<and>
      self_sys s' = Some (emitted_sys v (hstack (eye (b_dim_x b)) (mat_neg OME)) (b_b2 b) x_bar
                            (used_mask m nu (fdict_reduce_sys s') ppar b v)) \<and>
      self_vv s' = Some (msk (variables m)
                           (inv_msk (tail_n (length (variables m))
                                       (used_mask m nu (fdict_reduce_sys s') ppar b v)))) \<and>
      (truthy (fdict_reduce_sys s') \<longrightarrow>
         used_mask m nu (fdict_reduce_sys s') ppar b v = full_mask m nu ppar b v) \<and>
      (conformant m ppar b v \<longrightarrow>
         length (full_mask m nu ppar b v) = length (b_b2 b) \<and>
         (\<forall>i<length (b_b2 b).
            full_mask m nu ppar b v ! i =
              (inert_at nu v (b_b2 b) i \<and>
               (length (b_b2 b) - length (variables m) \<le> i \<longrightarrow>
                  list_all (near0 nu)
                    (col (ZZ m ppar) (i - (length (b_b2 b) - length (variables m))))))) \<and>
         (\<not> truthy (fdict_reduce_sys s') \<longrightarrow>
            used_mask m nu (fdict_reduce_sys s') ppar b v =
              take (length (b_b2 b) - length (variables m)) (full_mask m nu ppar b v)
              @ replicate (length (variables m)) False \<and>
            self_vv s' = Some (variables m)))"
proof -
  from assms obtain rs it l k s1 ppar cv b OME d where
    st: "settings a s = (rs, it, l, k, s1)"
    and pp: "parse_par m (the_par m a) = Inr ppar"
    and cv: "const_var m = Some cv"
    and b: "build m nu cv ppar = Inr b"
    and rb: "re_bk nu (b_M1 b) (b_P1 b) (b_dim_x b) = Inr OME"
    and d: "desingularize nu (a_tol a) b = Inr d"
    and em: "emit m nu a rs it l k (the_par m a) ppar b OME d
       (s1\<lparr>self_par := Some (the_par m a), self_ppar := Some ppar\<rparr>) = (Return (), s')"
    by (rule get_sys_reaches_emit)
  let ?s2 = "s1\<lparr>self_par := Some (the_par m a), self_ppar := Some ppar\<rparr>"
  let ?dv = "length (variables m)"
  let ?n = "length (b_b2 b)"
  from em obtain x_bar warn v s6 pc where
    xb: "resolve_x_bar m (the_par m a) = Inr (x_bar, warn)"
    and sv: "solve nu b d x_bar = Inr v"
    and rc: "reconcile (tail_n ?dv (reduction_mask nu v (b_b2 b) (ZZ m ppar) ?dv))
       (tail_n ?dv (applied_mask rs ?dv (reduction_mask nu v (b_b2 b) (ZZ m ppar) ?dv)))
       (?s2\<lparr>stdout := stdout ?s2 @
             (if 1 < a_verbose a
              then [ljust15 ''[get_sys:]'' @ '' determinant of `P` is '' @ str_det nu (d_P2 d) @ ''.'']
              else []) @ warn,
           self_out_msk := Some (tail_n ?dv (reduction_mask nu v (b_b2 b) (ZZ m ppar) ?dv))\<rparr>)
         = (Return (), s6)"
    and s': "s' = (assign m ppar b (hstack (eye (b_dim_x b)) (mat_neg OME)) v x_bar
             (applied_mask rs ?dv (reduction_mask nu v (b_b2 b) (ZZ m ppar) ?dv))
             (tail_n ?dv (applied_mask rs ?dv (reduction_mask nu v (b_b2 b) (ZZ m ppar) ?dv)))
             s6)\<lparr>stdout := stdout s6 @ (if 0 < a_verbose a then [timing_msg] else []),
                   precalc_mat := Some pc\<rparr>"
    by (rule emit_returns)
  let ?full = "full_mask m nu ppar b v"
  let ?used = "used_mask m nu rs ppar b v"
  have rs: "fdict_reduce_sys s' = rs"
    using emit_fields(2)[OF em] settings_frame(2)[OF st] by simp
  have om: "self_out_msk s' = Some (tail_n ?dv ?full)"
    unfolding s' using reconcile_fields(1)[OF rc] by (simp add: assign_def Let_def full_mask_def)
  have sys: "self_sys s' = Some (emitted_sys v (hstack (eye (b_dim_x b)) (mat_neg OME)) (b_b2 b) x_bar ?used)"
    unfolding s' by (simp add: assign_def Let_def used_mask_def full_mask_def)
  have vv: "self_vv s' = Some (msk (variables m) (inv_msk (tail_n ?dv ?used)))"
    unfolding s' by (simp add: assign_def Let_def used_mask_def full_mask_def)
  have on: "truthy rs \<longrightarrow> ?used = ?full"
    by (simp add: used_mask_def applied_mask_on)
  have dv: "0 < ?dv"
    using b by (rule build_variables)
  have shapes: "length ?full = ?n \<and>
         (\<forall>i<?n. ?full ! i =
              (inert_at nu v (b_b2 b) i \<and>
               (?n - ?dv \<le> i \<longrightarrow> list_all (near0 nu) (col (ZZ m ppar) (i - (?n - ?dv)))))) \<and>
         (\<not> truthy rs \<longrightarrow>
            ?used = take (?n - ?dv) ?full @ replicate ?dv False \<and> self_vv s' = Some (variables m))"
    if c: "conformant m ppar b v"
  proof -
    from c have c': "ncols (v_N v) = ?n" "ncols (v_A v) = ?n" "length (b_b2 b) = ?n"
      "length (v_cx v) = ?n" "ncols (ZZ m ppar) = ?dv" "?dv \<le> ?n"
      by (simp_all add: conformant_def)
    have len: "length ?full = ?n"
      unfolding full_mask_def using reduction_mask_nth(1)[OF c'(1-5) dv c'(6)] .
    have nth: "\<forall>i<?n. ?full ! i =
              (inert_at nu v (b_b2 b) i \<and>
               (?n - ?dv \<le> i \<longrightarrow> list_all (near0 nu) (col (ZZ m ppar) (i - (?n - ?dv)))))"
      unfolding full_mask_def using reduction_mask_nth(2)[OF c'(1-5) dv c'(6)] by blast
    have off: "?used = take (?n - ?dv) ?full @ replicate ?dv False \<and> self_vv s' = Some (variables m)"
      if "\<not> truthy rs"
      unfolding vv used_mask_def
      using applied_mask_off[OF len dv c'(6) that] by (simp add: msk_all)
    show ?thesis
      using len nth off by blast
  qed
  show ?thesis
    using pp cv b rb d xb sv om sys vv on shapes unfolding rs by blast
qed

text \<open>The model with three variables, compiled without \<^verbatim>\<open>reduce_sys\<close>.\<close>

theorem reduction_mask_and_pruning_witness:
  "self_vv (snd (get_sys tri ex_nu (default_args\<lparr>a_reduce_sys := Some False\<rparr>) fresh))
     = Some [''r'', ''y'', ''w''] \<and>
   self_out_msk (snd (get_sys tri ex_nu (default_args\<lparr>a_reduce_sys := Some False\<rparr>) fresh))
     = Some [False, True, False]"
proof -
  let ?a = "default_args\<lparr>a_reduce_sys := Some False\<rparr>"
  let ?s' = "snd (get_sys tri ex_nu ?a fresh)"
  let ?p = "[9 / 10, - 1 / 100] :: vec"
  let ?b = "\<lparr>b_c1 = [0, 0, 1, 0], b_c_P = [- 1, 0, 0, 0], b_b2 = [1, 5 / 2, 0, 0],
             b_N1 = [[0, - 1, 0, 0], [0, 0, 0, 9 / 10], [0, 0, 0, 0], [1, 0, 0, 0]],
             b_P1 = [[1, 0, 0, 0], [0, 0, 0, 1], [0, 1, 0, 0], [0, 0, 1, 0]],
             b_M1 = [[0, - 1, 0, 0], [0, 0, 0, 9 / 10], [1, 5 / 2, 0, 0], [1, 0, 0, 0]],
             b_vv_x3 = [''y''], b_dim_x = 1\<rparr>"
  let ?d = "\<lparr>d_Ut = [[1, 0, 0, 0], [0, 0, 1, 0], [0, 0, 0, 1], [0, 1, 0, 0]],
             d_s0 = [False, False, False, False],
             d_P2 = [[1, 0, 0, 0], [0, 1, 0, 0], [0, 0, 1, 0], [0, 0, 0, 1]],
             d_N2 = [[0, - 1, 0, 0], [0, 0, 0, 0], [1, 0, 0, 0], [0, 0, 0, 9 / 10]],
             d_c2 = [0, 1, 0, 0]\<rparr>"
  let ?v = "\<lparr>v_cx = [0, - (1 / 100), 0, 0],
             v_N = [[0, - 1, 0, 0], [0, 0, 0, 0], [1, 0, 0, 0], [0, 0, 0, 9 / 10]],
             v_A = [[0, - 1, 0, 0], [1, 5 / 2, 0, 0], [1, 0, 0, 0], [0, 0, 0, 9 / 10]]\<rparr>"
  have r: "fst (get_sys tri ex_nu ?a fresh) = Return ()"
    by code_simp
  have e: "get_sys tri ex_nu ?a fresh = (Return (), ?s')"
    using r by (metis prod.collapse)
  have 1: "parse_par tri (the_par tri ?a) = Inr ?p"
    by code_simp
  have 2: "const_var tri = Some ''r''"
    by code_simp
  have 3: "build tri ex_nu ''r'' ?p = Inr ?b"
    by code_simp
  have 4: "desingularize ex_nu (a_tol ?a) ?b = Inr ?d"
    by code_simp
  have 5: "resolve_x_bar tri (the_par tri ?a) = Inr (- 1 / 100, [])"
    by code_simp
  have 6: "solve ex_nu ?b ?d (- 1 / 100) = Inr ?v"
    by code_simp
  have 7: "conformant tri ?p ?b ?v"
    by code_simp
  have 8: "\<not> truthy (fdict_reduce_sys ?s')"
    by code_simp
  have 9: "tail_n (length (variables tri)) (full_mask tri ex_nu ?p ?b ?v) = [False, True, False]"
    by code_simp
  have 10: "variables tri = [''r'', ''y'', ''w'']"
    by code_simp
  from reduction_mask_and_pruning[OF e] obtain ppar cv b OME d x_bar warn v where
    h: "parse_par tri (the_par tri ?a) = Inr ppar" "const_var tri = Some cv"
      "build tri ex_nu cv ppar = Inr b" "desingularize ex_nu (a_tol ?a) b = Inr d"
      "resolve_x_bar tri (the_par tri ?a) = Inr (x_bar, warn)" "solve ex_nu b d x_bar = Inr v"
    and om: "self_out_msk ?s' = Some (tail_n (length (variables tri)) (full_mask tri ex_nu ppar b v))"
    and c: "conformant tri ppar b v \<longrightarrow>
         length (full_mask tri ex_nu ppar b v) = length (b_b2 b) \<and>
         (\<forall>i<length (b_b2 b).
            full_mask tri ex_nu ppar b v ! i =
              (inert_at ex_nu v (b_b2 b) i \<and>
               (length (b_b2 b) - length (variables tri) \<le> i \<longrightarrow>
                  list_all (near0 ex_nu)
                    (col (ZZ tri ppar) (i - (length (b_b2 b) - length (variables tri))))))) \<and>
         (\<not> truthy (fdict_reduce_sys ?s') \<longrightarrow>
            used_mask tri ex_nu (fdict_reduce_sys ?s') ppar b v =
              take (length (b_b2 b) - length (variables tri)) (full_mask tri ex_nu ppar b v)
              @ replicate (length (variables tri)) False \<and>
            self_vv ?s' = Some (variables tri))"
    by blast
  have "ppar = ?p" using h(1) 1 by simp
  moreover have "cv = ''r''" using h(2) 2 by simp
  ultimately have "b = ?b" using h(3) 3 by simp
  then have "d = ?d" using h(4) 4 by simp
  have "x_bar = - 1 / 100" using h(5) 5 by simp
  then have "v = ?v" using h(6) 6 \<open>b = ?b\<close> \<open>d = ?d\<close> by simp
  have "self_vv ?s' = Some (variables tri)"
    using c 7 8 \<open>ppar = ?p\<close> \<open>b = ?b\<close> \<open>v = ?v\<close> by blast
  moreover have "self_out_msk ?s' = Some [False, True, False]"
    using om 9 \<open>ppar = ?p\<close> \<open>b = ?b\<close> \<open>v = ?v\<close> by simp
  ultimately show ?thesis
    using 10 by simp
qed

text \<open>
  As C2 is written it fails in two places. Without \<^verbatim>\<open>reduce_sys\<close>, the model \<open>inert\<close> compiles
  to a system of three positions although the extended variables are four (\<open>b2\<close> has four
  entries): position \<open>0\<close>, the forward-looking slot of \<open>y\<close>, is numerically inert and is pruned.
  The tabulated \<open>U\<close> and \<open>Vt\<close> are orthogonal, \<open>U diag(s) Vt\<close> is \<open>P1\<close>, and the tabulated inverse
  is the inverse of \<open>P2\<close>. And the mask that is cached is not the mask of the first sentence:
  on the model with two variables that mask is \<open>[False, False, True]\<close> over \<open>(x, r, y)\<close>, and
  \<^verbatim>\<open>self.out_msk\<close> is its state block \<open>[False, True]\<close>.
\<close>

theorem pruned_without_reduce_sys:
  "fst (get_sys inert ex_nu (default_args\<lparr>a_reduce_sys := Some False\<rparr>) fresh) = Return () \<and>
   build inert ex_nu ''r'' [9 / 10, - 1 / 100]
     = Inr \<lparr>b_c1 = [0, 0, 1, 0], b_c_P = [- 1, 0, 0, 0], b_b2 = [0, 1 / 2, 0, 0],
             b_N1 = [[0, 0, 0, 0], [0, 0, 0, big_c], [0, 0, 0, 0], [1, 0, 0, 0]],
             b_P1 = inert_P1,
             b_M1 = [[0, 0, 0, 0], [0, 0, 0, big_c], [0, 1 / 2, 0, 0], [1, 0, 0, 0]],
             b_vv_x3 = [''y''], b_dim_x = 1\<rparr> \<and>
   self_sys (snd (get_sys inert ex_nu (default_args\<lparr>a_reduce_sys := Some False\<rparr>) fresh))
     = Some ([[0, 0, 0], [0, 0, - (big_b * big_c / (big_h * big_h))], [0, 0, 1]],
             [[1 / 2, 0, 0], [0, 0, - (big_b * big_c / (big_h * big_h))], [0, 0, 1]],
             [[0, 0, 10000000000]], [- (1 / 100), 0, 0], [1 / 2, 0, 0], - (1 / 100)) \<and>
   matmul inert_U (transp inert_U) = eye 4 \<and>
   matmul (transp inert_Vt) inert_Vt = eye 4 \<and>
   matmul inert_U (matmul (diag [big_h, 1, 1, 0]) inert_Vt) = inert_P1 \<and>
   matmul inert_Pi inert_P2 = eye 4 \<and>
   reduction_mask toy_nu
      \<lparr>v_cx = [0, - (1 / 100), 0], v_N = [[0, - 1, 0], [0, 0, 0], [1, 0, 0]],
        v_A = [[0, - 1, 0], [1, 5 / 2, 0], [1, 0, 0]]\<rparr> [1, 5 / 2, 0] [[1, 0]] 2
     = [False, False, True] \<and>
   self_out_msk (snd (get_sys toy toy_nu default_args fresh)) = Some [False, True]"
  by (intro conjI; code_simp)

end
